theory Spec2Isabelle
  imports Main "HOL-Library.Word"
begin

section \<open>JavaScript values used by the GitHub link handler\<close>

text \<open>
  The handler finds the GitHub links of a text (\<open>matchGitHubUrls\<close>) and renders the
  lines they point to (\<open>resolveGitHubResults\<close>). The sources hold two versions of it:
  \<open>src/functions/github/handler.ts\<close>, which reads a Gist from the raw URL of its file,
  and a second version, which reads a Gist from the metadata of the Gist; the names of
  the second version end in \<open>_api\<close> here. What both versions share is modelled once.
\<close>

text \<open>
  A JavaScript string is a sequence of UTF-16 code units, and \<open>s.length\<close> counts them:
  a string is a list of 16-bit words and its length is the length of the list.
  Line numbers are JavaScript numbers holding integers: they are \<open>int\<close> (\<open>NaN\<close> and
  the infinities are not modelled). A value of type \<open>T | undefined\<close> or \<open>T | null\<close> is
  a \<open>T option\<close>. An exception thrown by the code is the left summand of a sum type.
\<close>

type_synonym jsstring = "16 word list"

definition lit :: "string \<Rightarrow> jsstring" where
  "lit s = map of_char s"

datatype exn = TypeError | SyntaxError | NetworkError

text \<open>\<open>!v\<close> for a value that is a string, \<open>null\<close> or \<open>undefined\<close>.\<close>

definition falsy :: "jsstring option \<Rightarrow> bool" where
  "falsy v = (case v of None \<Rightarrow> True | Some s \<Rightarrow> s = [])"

text \<open>\<open>v || d\<close> for a number or \<open>undefined\<close>: zero is falsy as well.\<close>

definition or_else :: "int option \<Rightarrow> int \<Rightarrow> int" where
  "or_else v d = (case v of None \<Rightarrow> d | Some n \<Rightarrow> if n = 0 then d else n)"

definition startsWith :: "'a list \<Rightarrow> 'a list \<Rightarrow> bool" where
  "startsWith s p = (take (length p) s = p)"

text \<open>\<open>String.prototype.includes\<close>.\<close>

fun js_includes :: "'a list \<Rightarrow> 'a list \<Rightarrow> bool" where
  "js_includes [] p = (p = [])"
| "js_includes (c # cs) p = (startsWith (c # cs) p \<or> js_includes cs p)"

text \<open>\<open>s.replace(p, r)\<close> with a string pattern: the first occurrence only.\<close>

fun js_replace :: "'a list \<Rightarrow> 'a list \<Rightarrow> 'a list \<Rightarrow> 'a list" where
  "js_replace [] p r = (if p = [] then r else [])"
| "js_replace (c # cs) p r =
     (if startsWith (c # cs) p then r @ drop (length p) (c # cs) else c # js_replace cs p r)"

text \<open>\<open>s.replaceAll(a, b)\<close> for one-character strings \<open>a\<close> and \<open>b\<close>.\<close>

definition js_replaceAll_char :: "'a \<Rightarrow> 'a \<Rightarrow> 'a list \<Rightarrow> 'a list" where
  "js_replaceAll_char a b s = map (\<lambda>c. if c = a then b else c) s"

text \<open>\<open>s.split(sep)\<close> for a one-character separator; the result is never empty.\<close>

fun js_split :: "'a \<Rightarrow> 'a list \<Rightarrow> 'a list list" where
  "js_split sep [] = [[]]"
| "js_split sep (c # cs) =
     (if c = sep then [] # js_split sep cs
      else (case js_split sep cs of [] \<Rightarrow> [[c]] | w # ws \<Rightarrow> (c # w) # ws))"

text \<open>\<open>xs.join(sep)\<close> for an array of strings.\<close>

fun js_join :: "'a list \<Rightarrow> 'a list list \<Rightarrow> 'a list" where
  "js_join sep [] = []"
| "js_join sep [x] = x"
| "js_join sep (x # y # ys) = x @ sep @ js_join sep (y # ys)"

text \<open>
  \<open>xs.slice(start, end)\<close>: a negative index counts from the end of the array, both
  indices are clamped to the array, and an empty range gives the empty array.
\<close>

definition js_slice :: "'a list \<Rightarrow> int \<Rightarrow> int \<Rightarrow> 'a list" where
  "js_slice xs start end =
     (let len = int (length xs);
          k = (if start < 0 then max (len + start) 0 else min start len);
          final = (if end < 0 then max (len + end) 0 else min end len)
      in take (nat (final - k)) (drop (nat k) xs))"

definition nl :: jsstring where
  "nl = lit [CHR 0x0A]"

text \<open>
  \<open>Buffer.from(s)\<close>: the UTF-8 encoding of the string; a surrogate pair is one code
  point, a lone surrogate is encoded as U+FFFD.
\<close>

definition utf8 :: "nat \<Rightarrow> 8 word list" where
  "utf8 n =
     (if n < 0x80 then [of_nat n]
      else if n < 0x800 then [of_nat (0xC0 + n div 64), of_nat (0x80 + n mod 64)]
      else if n < 0x10000 then
        [of_nat (0xE0 + n div 4096), of_nat (0x80 + n div 64 mod 64), of_nat (0x80 + n mod 64)]
      else [of_nat (0xF0 + n div 262144), of_nat (0x80 + n div 4096 mod 64),
            of_nat (0x80 + n div 64 mod 64), of_nat (0x80 + n mod 64)])"

definition high_surrogate :: "16 word \<Rightarrow> bool" where
  "high_surrogate c = (0xD800 \<le> c \<and> c \<le> 0xDBFF)"

definition low_surrogate :: "16 word \<Rightarrow> bool" where
  "low_surrogate c = (0xDC00 \<le> c \<and> c \<le> 0xDFFF)"

definition utf8_unit :: "16 word \<Rightarrow> 8 word list" where
  "utf8_unit c = utf8 (if high_surrogate c \<or> low_surrogate c then 0xFFFD else unat c)"

fun Buffer_from :: "jsstring \<Rightarrow> 8 word list" where
  "Buffer_from [] = []"
| "Buffer_from [c] = utf8_unit c"
| "Buffer_from (c # d # cs) =
     (if high_surrogate c \<and> low_surrogate d
      then utf8 (0x10000 + (unat c - 0xD800) * 1024 + (unat d - 0xDC00)) @ Buffer_from cs
      else utf8_unit c @ Buffer_from (d # cs))"

section \<open>Regular expressions of the handler\<close>

text \<open>\<open>\d\<close>: an ASCII digit.\<close>

definition is_digit :: "16 word \<Rightarrow> bool" where
  "is_digit c = (48 \<le> c \<and> c \<le> 57)"

text \<open>
  A match of \<open>-L\d+\<close> at the head of the string: what follows the match, the digits
  taken greedily.
\<close>

fun line_marker :: "jsstring \<Rightarrow> jsstring option" where
  "line_marker (a # b # c # cs) =
     (if a = 45 \<and> b = 76 \<and> is_digit c then Some (dropWhile is_digit cs) else None)"
| "line_marker _ = None"

text \<open>The rest of the string after a greedy match of \<open>(?:-L\d+)*\<close> at its head.\<close>

function line_markers :: "jsstring \<Rightarrow> jsstring" where
  "line_markers s = (case line_marker s of None \<Rightarrow> s | Some r \<Rightarrow> line_markers r)"
  by pat_completeness auto
termination
proof (relation "measure length")
  fix s r
  assume "line_marker s = Some r"
  then have "length r < length s"
    using length_dropWhile_le [of is_digit]
    by (cases s rule: line_marker.cases) (auto split: if_splits simp: less_Suc_eq_le le_SucI)
  then show "(r, s) \<in> measure length" by simp
qed simp

declare line_markers.simps [simp del]

text \<open>\<open>s.replace(/(?:-L\d+)+/, "")\<close>: the leftmost run of line markers is removed.\<close>

fun strip_line_markers :: "jsstring \<Rightarrow> jsstring" where
  "strip_line_markers [] = []"
| "strip_line_markers (c # cs) =
     (case line_marker (c # cs) of
        Some r \<Rightarrow> line_markers r
      | None \<Rightarrow> c # strip_line_markers cs)"

text \<open>\<open>s.replaceAll(/-L\d+/g, "")\<close>: every line marker is removed.\<close>

function strip_all_line_markers :: "jsstring \<Rightarrow> jsstring" where
  "strip_all_line_markers [] = []"
| "strip_all_line_markers (c # cs) =
     (case line_marker (c # cs) of
        Some r \<Rightarrow> strip_all_line_markers r
      | None \<Rightarrow> c # strip_all_line_markers cs)"
  by pat_completeness auto
termination
proof (relation "measure length")
  fix c cs r
  assume "line_marker (c # cs) = Some r"
  then have "length r < length (c # cs)"
    using length_dropWhile_le [of is_digit]
    by (cases "c # cs" rule: line_marker.cases) (auto split: if_splits simp: less_Suc_eq_le le_SucI)
  then show "(r, c # cs) \<in> measure length" by simp
qed simp_all

text \<open>
  \<open>s.replaceAll(/-L\d+$/g, "")\<close>: a line marker that ends the string is removed
  (at most one match ends at the end of the input).
\<close>

fun strip_last_line_marker :: "jsstring \<Rightarrow> jsstring" where
  "strip_last_line_marker [] = []"
| "strip_last_line_marker (c # cs) =
     (if line_marker (c # cs) = Some [] then [] else c # strip_last_line_marker cs)"

text \<open>\<open>s.replace(/\/(?:blob|(?:blame))/, "")\<close>: the leftmost match is removed.\<close>

fun strip_blob :: "jsstring \<Rightarrow> jsstring" where
  "strip_blob [] = []"
| "strip_blob (c # cs) =
     (if startsWith (c # cs) (lit ''/blob'') then drop 5 (c # cs)
      else if startsWith (c # cs) (lit ''/blame'') then drop 6 (c # cs)
      else c # strip_blob cs)"

text \<open>
  The patterns \<open>URL_REGEX\<close>, \<open>NormalGitHubUrlRegex\<close> and \<open>GistGitHubUrlRegex\<close> are
  constants of other modules: they are parameters. \<open>regex.exec(s)\<close> gives the matched
  text and the named groups \<open>user\<close>, \<open>id\<close> and \<open>opts\<close>, or \<open>null\<close>; the pattern is taken
  without the flags that make \<open>exec\<close> depend on earlier calls.
\<close>

record regex_groups =
  g_user :: "jsstring option"
  g_id :: "jsstring option"
  g_opts :: "jsstring option"

record regex_match =
  m_whole :: jsstring
  m_groups :: regex_groups

type_synonym regex = "jsstring \<Rightarrow> regex_match option"

section \<open>The validators and their converters\<close>

datatype GitHubUrlType = Normal | Gist | Diff

record GitHubMatchResult =
  converter :: "jsstring \<Rightarrow> exn + jsstring option"
  opts :: "jsstring option"
  regex :: regex
  type :: GitHubUrlType
  url :: jsstring

record validator =
  v_type :: GitHubUrlType
  v_regex :: regex
  v_converter :: "jsstring \<Rightarrow> exn + jsstring option"

text \<open>The converter of the \<open>Normal\<close> validator (the same in both versions of the handler).\<close>

definition converter_Normal :: "jsstring \<Rightarrow> exn + jsstring option" where
  "converter_Normal u =
     Inr (Some (strip_blob
       (js_replace (js_replace u (lit ''>'') []) (lit ''github.com'')
          (lit ''raw.githubusercontent.com''))))"

text \<open>
  The converter of the \<open>Gist\<close> validator in \<open>handler.ts\<close>: the raw URL of the file,
  built from the qualifier. \<open>exec(...)!.groups!\<close> throws when the pattern does not match.
\<close>

definition converter_Gist :: "regex \<Rightarrow> jsstring \<Rightarrow> exn + jsstring option" where
  "converter_Gist GistGitHubUrlRegex u =
     (case GistGitHubUrlRegex (strip_line_markers u) of
        None \<Rightarrow> Inl TypeError
      | Some m \<Rightarrow>
          (case (g_user (m_groups m), g_id (m_groups m), g_opts (m_groups m)) of
             (Some user, Some ident, Some opts') \<Rightarrow>
               if user = [] \<or> ident = [] \<or> opts' = [] then Inr None
               else
                 let fileName = js_join (lit ''.'') (butlast (js_split 45 opts'));
                     extension = last (js_split 45 opts')
                 in Inr (Some (lit ''https://gist.githubusercontent.com/'' @ user @ lit ''/''
                      @ ident @ lit ''/raw/'' @ fileName @ lit ''.'' @ extension))
           | _ \<Rightarrow> Inr None))"

text \<open>
  The converter of the \<open>Gist\<close> validator in the second version of the handler: the URL
  of the Gist's metadata; the \<open>user\<close> group is not read.
\<close>

definition converter_Gist_api :: "regex \<Rightarrow> jsstring \<Rightarrow> exn + jsstring option" where
  "converter_Gist_api GistGitHubUrlRegex u =
     (case GistGitHubUrlRegex (strip_line_markers u) of
        None \<Rightarrow> Inl TypeError
      | Some m \<Rightarrow>
          (case (g_id (m_groups m), g_opts (m_groups m)) of
             (Some ident, Some opts') \<Rightarrow>
               if ident = [] \<or> opts' = [] then Inr None
               else Inr (Some (lit ''https://api.github.com/gists/'' @ ident))
           | _ \<Rightarrow> Inr None))"

definition validators :: "regex \<Rightarrow> regex \<Rightarrow> validator list" where
  "validators NormalGitHubUrlRegex GistGitHubUrlRegex =
     [\<lparr>v_type = Normal, v_regex = NormalGitHubUrlRegex, v_converter = converter_Normal\<rparr>,
      \<lparr>v_type = Gist, v_regex = GistGitHubUrlRegex,
       v_converter = converter_Gist GistGitHubUrlRegex\<rparr>]"

definition validators_api :: "regex \<Rightarrow> regex \<Rightarrow> validator list" where
  "validators_api NormalGitHubUrlRegex GistGitHubUrlRegex =
     [\<lparr>v_type = Normal, v_regex = NormalGitHubUrlRegex, v_converter = converter_Normal\<rparr>,
      \<lparr>v_type = Gist, v_regex = GistGitHubUrlRegex,
       v_converter = converter_Gist_api GistGitHubUrlRegex\<rparr>]"

section \<open>matchGitHubUrls\<close>

text \<open>
  \<open>text.matchAll(URL_REGEX)\<close> yields one new array object per match. An object is
  modelled by its address and its contents (here element 0 of the match array, the
  matched text); the addresses of the arrays of one call are pairwise different.
  \<open>new Set(iterable)\<close> keeps the first of the elements that are the same value, in
  insertion order; two objects are the same value when they are the same object.
\<close>

type_synonym 'a obj = "nat \<times> 'a"

definition matchAll :: "(jsstring \<Rightarrow> jsstring list) \<Rightarrow> jsstring \<Rightarrow> jsstring obj list" where
  "matchAll URL_REGEX text = (let ms = URL_REGEX text in zip [0..<length ms] ms)"

definition new_Set :: "'a obj list \<Rightarrow> 'a obj list" where
  "new_Set xs = foldl (\<lambda>s x. if fst x \<in> fst ` set s then s else s @ [x]) [] xs"

text \<open>The callback of \<open>.map\<close>: the first validator whose pattern matches classifies the URL.\<close>

definition classify :: "validator list \<Rightarrow> jsstring obj \<Rightarrow> exn + GitHubMatchResult option" where
  "classify vs m =
     (let u = snd m in
      case find (\<lambda>v. v_regex v u \<noteq> None) vs of
        None \<Rightarrow> Inr None
      | Some match \<Rightarrow>
          (case v_regex match u of
             None \<Rightarrow> Inl TypeError
           | Some regexMatch \<Rightarrow>
               if m_whole regexMatch = [] then Inr None
               else Inr (Some \<lparr>converter = v_converter match,
                               opts = g_opts (m_groups regexMatch),
                               regex = v_regex match,
                               type = v_type match,
                               url = m_whole regexMatch\<rparr>)))"

text \<open>A loop over a list in which an exception ends the loop.\<close>

fun sequence :: "('e + 'a) list \<Rightarrow> 'e + 'a list" where
  "sequence [] = Inr []"
| "sequence (x # xs) =
     (case x of
        Inl e \<Rightarrow> Inl e
      | Inr v \<Rightarrow> (case sequence xs of Inl e \<Rightarrow> Inl e | Inr vs \<Rightarrow> Inr (v # vs)))"

text \<open>\<open>.filter(Boolean)\<close> on an array of objects and \<open>null\<close>.\<close>

definition filter_Boolean :: "'a option list \<Rightarrow> 'a list" where
  "filter_Boolean xs = concat (map (\<lambda>x. case x of None \<Rightarrow> [] | Some v \<Rightarrow> [v]) xs)"

definition matchGitHubUrls ::
  "(jsstring \<Rightarrow> jsstring list) \<Rightarrow> validator list \<Rightarrow> jsstring \<Rightarrow> exn + GitHubMatchResult list"
where
  "matchGitHubUrls URL_REGEX vs text =
     (let urls = new_Set (matchAll URL_REGEX text) in
      if urls = [] then Inr []
      else (case sequence (map (classify vs) urls) of
              Inl e \<Rightarrow> Inl e
            | Inr matches \<Rightarrow> Inr (filter_Boolean matches)))"

section \<open>Helpers of other modules and the outside world\<close>

text \<open>
  \<open>formatLine\<close>, \<open>generateHeader\<close> and \<open>resolveFileLanguage\<close> (module \<open>utils\<close>),
  \<open>trimLeadingIndent\<close> and \<open>truncateArray\<close> (module \<open>array\<close>) are functions of other
  modules: the handler is modelled for any such functions, which are parameters (and
  which return: a helper that throws is not modelled).
\<close>

record HeaderOptions =
  h_startLine :: int
  h_endLine :: int
  h_path :: jsstring
  h_ellipsed :: "bool option"

record helpers =
  formatLine :: "jsstring \<Rightarrow> int \<Rightarrow> int \<Rightarrow> int \<Rightarrow> bool \<Rightarrow> jsstring"
  generateHeader :: "HeaderOptions \<Rightarrow> jsstring"
  resolveFileLanguage :: "jsstring \<Rightarrow> jsstring"
  trimLeadingIndent :: "jsstring list \<Rightarrow> jsstring list"
  truncateArray :: "jsstring list \<Rightarrow> int \<Rightarrow> jsstring list"

text \<open>
  \<open>resolveLines\<close> in \<open>handler.ts\<close> gives a start line that is a number
  (\<open>Math.min(startLine, ...)\<close>); in the second version the start line may be undefined
  (\<open>startLine || 1\<close>).
\<close>

record LineRange =
  startLine :: int
  endLine :: "int option"

record LineRange_api =
  startLine_api :: "int option"
  endLine_api :: "int option"

text \<open>The response of \<open>request\<close> (\<open>handler.ts\<close>): the status code and the body as text.\<close>

record response =
  statusCode :: int
  body_text :: jsstring

text \<open>
  The response of \<open>fetch\<close> (second version): the status, the body as text, and the body
  as JSON (\<open>None\<close> when \<open>res.json()\<close> rejects). The handler asserts that the JSON value
  is a string, \<open>null\<close> or an object whose property \<open>files\<close>, when there is one, maps a
  file name to an object with a string \<open>content\<close>: a JSON value is one of these. The
  files are in the order in which \<open>for ... in\<close> visits them.
\<close>

datatype json = JNull | JString jsstring | JObject "(jsstring \<times> jsstring) list option"

record response_api =
  status :: int
  text_body :: jsstring
  json_body :: "json option"

text \<open>
  The world of \<open>handler.ts\<close>: the helpers, \<open>resolveLines\<close>, the HTTP client (\<open>Inl\<close> when
  the request rejects) and \<open>new URL(u).pathname\<close> (\<open>None\<close> when the constructor throws).
\<close>

record env =
  hs :: helpers
  resolveLines :: "jsstring option \<Rightarrow> LineRange"
  request :: "jsstring \<Rightarrow> exn + response"
  pathname :: "jsstring \<Rightarrow> jsstring option"

record env_api =
  hs_api :: helpers
  resolveLines_api :: "jsstring option \<Rightarrow> LineRange_api"
  fetch :: "jsstring \<Rightarrow> exn + response_api"
  pathname_api :: "jsstring \<Rightarrow> jsstring option"

section \<open>resolveGitHubResults\<close>

record AttachmentPayload =
  attachment :: "8 word list"
  name :: jsstring

record ResolvedGitHubResult =
  content :: jsstring
  files :: "AttachmentPayload list"

definition SAFE_BOUNDARY :: int where
  "SAFE_BOUNDARY = 100"

text \<open>\<open>codeBlock(language, content)\<close> of discord.js.\<close>

definition codeBlock :: "jsstring \<Rightarrow> jsstring \<Rightarrow> jsstring" where
  "codeBlock language c = lit ''```'' @ language @ nl @ c @ nl @ lit ''```''"

text \<open>The effective line range of \<open>handler.ts\<close> (lines 101 to 104).\<close>

definition safeLines :: "LineRange \<Rightarrow> jsstring list \<Rightarrow> int \<times> int" where
  "safeLines r parsedLines =
     (min (startLine r) (int (length parsedLines)),
      min (case endLine r of
             None \<Rightarrow> startLine r
           | Some e \<Rightarrow> if e \<noteq> 0 then e else startLine r)
          (int (length parsedLines)))"

text \<open>The effective line range of the second version (lines 123 to 128).\<close>

definition safeLines_api :: "LineRange_api \<Rightarrow> jsstring list \<Rightarrow> int \<times> int" where
  "safeLines_api r parsedLines =
     (min (or_else (startLine_api r) 1) (int (length parsedLines)),
      min (case endLine_api r of
             None \<Rightarrow> or_else (startLine_api r) (int (length parsedLines))
           | Some e \<Rightarrow>
               if e \<noteq> 0 then e else or_else (startLine_api r) (int (length parsedLines)))
          (int (length parsedLines)))"

text \<open>
  What a turn of the loop has in hand once the file is fetched and the line range is
  clamped: the path shown, the language, the effective start and end lines and the lines
  of the file.
\<close>

record fetched =
  f_path :: jsstring
  f_lang :: jsstring
  f_start :: int
  f_end :: int
  f_lines :: "jsstring list"

text \<open>
  The first half of a turn of the loop of \<open>handler.ts\<close> (lines 90 to 104): \<open>Inr None\<close> is
  \<open>continue\<close>, \<open>Inl e\<close> is an exception, which nothing catches.
\<close>

definition fetchMatch :: "env \<Rightarrow> GitHubMatchResult \<Rightarrow> exn + fetched option" where
  "fetchMatch w m =
     (case converter m (url m) of
        Inl e \<Rightarrow> Inl e
      | Inr None \<Rightarrow> Inr None
      | Inr (Some rawUrl) \<Rightarrow>
          if rawUrl = [] then Inr None
          else
            (case request w rawUrl of
               Inl e \<Rightarrow> Inl e
             | Inr res \<Rightarrow>
                 let rawFile = (if statusCode res = 200 then Some (body_text res) else None) in
                 if falsy rawFile then Inr None
                 else
                   let r = resolveLines w (opts m);
                       lang = resolveFileLanguage (hs w) rawUrl
                   in (case pathname w (url m) of
                         None \<Rightarrow> Inl TypeError
                       | Some path \<Rightarrow>
                           let parsedLines = js_split 10 (body_text res);
                               (safeStartLine, safeEndLine) = safeLines r parsedLines
                           in Inr (Some \<lparr>f_path = path, f_lang = lang,
                                          f_start = safeStartLine, f_end = safeEndLine,
                                          f_lines = parsedLines\<rparr>))))"

text \<open>
  The second version: a Gist is read from the metadata of the Gist. \<open>parsedFiles\<close> is an
  ordinary object: an assignment to a key that is already there replaces the entry, and
  a key with no entry of its own may still be found in the prototype, where the value
  has no \<open>parsed\<close> property, so that reading \<open>.parsed.content\<close> throws. (An entry
  stored under \<open>__proto__\<close> becomes the prototype and is read back under that key.)
\<close>

definition parsedFiles :: "(jsstring \<times> jsstring) list option \<Rightarrow> (jsstring \<times> jsstring) list" where
  "parsedFiles fs =
     (case fs of
        None \<Rightarrow> []
      | Some kvs \<Rightarrow> rev (map (\<lambda>(key, c). (js_replaceAll_char 46 45 key, c)) kvs))"

definition inherited_keys :: "(jsstring \<times> jsstring) list \<Rightarrow> jsstring list" where
  "inherited_keys own =
     map lit [''constructor'', ''hasOwnProperty'', ''isPrototypeOf'', ''propertyIsEnumerable'',
              ''toLocaleString'', ''toString'', ''valueOf'', ''__defineGetter__'',
              ''__defineSetter__'', ''__lookupGetter__'', ''__lookupSetter__'', ''__proto__'']
     @ (if lit ''__proto__'' \<in> fst ` set own then [lit ''raw'', lit ''parsed''] else [])"

definition fileContents :: "GitHubUrlType \<Rightarrow> json \<Rightarrow> jsstring option \<Rightarrow> exn + jsstring option" where
  "fileContents ty rawFile opts' =
     (case rawFile of
        JNull \<Rightarrow> Inr None
      | JString s \<Rightarrow> Inr (Some s)
      | JObject fs \<Rightarrow>
          if ty = Gist then
            (case opts' of
               None \<Rightarrow> Inl TypeError
             | Some q \<Rightarrow>
                 let key = js_replaceAll_char 46 45 (strip_all_line_markers q) in
                 (case map_of (parsedFiles fs) key of
                    Some c \<Rightarrow> Inr (Some c)
                  | None \<Rightarrow>
                      if key \<in> set (inherited_keys (parsedFiles fs)) then Inl TypeError
                      else Inr None))
          else Inl TypeError)"

text \<open>The value of \<open>rawFile\<close> (lines 89 to 91): \<open>null\<close> unless the status is 200.\<close>

definition rawFile_api :: "GitHubUrlType \<Rightarrow> response_api \<Rightarrow> exn + json" where
  "rawFile_api ty res =
     (if status res = 200 then
        (if ty = Gist then (case json_body res of None \<Rightarrow> Inl SyntaxError | Some j \<Rightarrow> Inr j)
         else Inr (JString (text_body res)))
      else Inr JNull)"

text \<open>The language and the path shown (lines 108 to 120); \<open>opts!\<close> throws on \<open>undefined\<close>.\<close>

definition lang_api :: "helpers \<Rightarrow> GitHubUrlType \<Rightarrow> jsstring option \<Rightarrow> jsstring \<Rightarrow> exn + jsstring" where
  "lang_api h ty opts' rawData =
     (if ty = Gist then
        (case opts' of
           None \<Rightarrow> Inl TypeError
         | Some q \<Rightarrow>
             Inr (resolveFileLanguage h
                    (js_replaceAll_char 45 46
                       (strip_last_line_marker (strip_last_line_marker q)))))
      else Inr (resolveFileLanguage h rawData))"

definition path_api ::
  "(jsstring \<Rightarrow> jsstring option) \<Rightarrow> GitHubUrlType \<Rightarrow> jsstring option \<Rightarrow> jsstring \<Rightarrow> exn + jsstring"
where
  "path_api pathname' ty opts' u =
     (case pathname' u of
        None \<Rightarrow> Inl TypeError
      | Some p \<Rightarrow>
          if ty = Gist then
            (case opts' of
               None \<Rightarrow> Inl TypeError
             | Some q \<Rightarrow>
                 Inr (p @ lit ''#file-'' @ strip_last_line_marker (strip_last_line_marker q)))
          else Inr p)"

text \<open>The first half of a turn of the loop of the second version (lines 87 to 128).\<close>

definition fetchMatch_api :: "env_api \<Rightarrow> GitHubMatchResult \<Rightarrow> exn + fetched option" where
  "fetchMatch_api w m =
     (case converter m (url m) of
        Inl e \<Rightarrow> Inl e
      | Inr None \<Rightarrow> Inr None
      | Inr (Some rawData) \<Rightarrow>
          if rawData = [] then Inr None
          else
            (case fetch w rawData of
               Inl e \<Rightarrow> Inl e
             | Inr res \<Rightarrow>
                 (case rawFile_api (type m) res of
                    Inl e \<Rightarrow> Inl e
                  | Inr rawFile \<Rightarrow>
                      if rawFile = JNull \<or> rawFile = JString [] then Inr None
                      else
                        (case fileContents (type m) rawFile (opts m) of
                           Inl e \<Rightarrow> Inl e
                         | Inr None \<Rightarrow> Inr None
                         | Inr (Some contents) \<Rightarrow>
                             if contents = [] then Inr None
                             else
                               let r = resolveLines_api w (opts m) in
                               (case lang_api (hs_api w) (type m) (opts m) rawData of
                                  Inl e \<Rightarrow> Inl e
                                | Inr lang \<Rightarrow>
                                    (case path_api (pathname_api w) (type m) (opts m) (url m) of
                                       Inl e \<Rightarrow> Inl e
                                     | Inr path \<Rightarrow>
                                         let parsedLines = js_split 10 contents;
                                             (safeStartLine, safeEndLine) =
                                               safeLines_api r parsedLines
                                         in Inr (Some \<lparr>f_path = path, f_lang = lang,
                                               f_start = safeStartLine, f_end = safeEndLine,
                                               f_lines = parsedLines\<rparr>)))))))"

text \<open>
  From here on both versions have the same text (lines 106 to 159 of \<open>handler.ts\<close>,
  lines 130 to 183 of the second version), modelled once.
\<close>

definition linesRequested :: "fetched \<Rightarrow> jsstring list" where
  "linesRequested f = js_slice (f_lines f) (f_start f - 1) (f_end f)"

definition hasCodeBlock :: "jsstring list \<Rightarrow> bool" where
  "hasCodeBlock ls = list_ex (\<lambda>line. js_includes line (lit ''```'')) ls"

definition header :: "helpers \<Rightarrow> fetched \<Rightarrow> jsstring" where
  "header h f =
     generateHeader h \<lparr>h_startLine = f_start f, h_endLine = f_end f, h_path = f_path f,
                       h_ellipsed = None\<rparr>"

text \<open>
  The result pushed when the slice has a code fence and when the inline text is too
  long: the header, and the slice as a file.
\<close>

definition asAttachment :: "helpers \<Rightarrow> GitHubUrlType \<Rightarrow> fetched \<Rightarrow> ResolvedGitHubResult" where
  "asAttachment h ty f =
     \<lparr>content = header h f,
      files = [\<lparr>attachment = Buffer_from (js_join nl (linesRequested f)),
                name = (if ty = Gist then f_path f @ lit ''.'' @ f_lang f else f_path f)\<rparr>]\<rparr>"

definition formattedLines :: "helpers \<Rightarrow> fetched \<Rightarrow> jsstring list" where
  "formattedLines h f =
     map (\<lambda>(index, line).
            formatLine h line (f_start f) (f_end f) (int index) (f_lang f = lit ''ansi''))
         (enumerate 0 (trimLeadingIndent h (linesRequested f)))"

definition safeLinesRequested :: "helpers \<Rightarrow> fetched \<Rightarrow> jsstring list" where
  "safeLinesRequested h f =
     truncateArray h (formattedLines h f)
       (2000 - (int (length (header h f)) + SAFE_BOUNDARY + int (length (f_lang f))))"

text \<open>The header of the inline text: its end line is the last line kept.\<close>

definition inlineHeader :: "helpers \<Rightarrow> fetched \<Rightarrow> jsstring" where
  "inlineHeader h f =
     generateHeader h
       \<lparr>h_startLine = f_start f,
        h_endLine = int (length (safeLinesRequested h f)) + f_start f - 1,
        h_path = f_path f,
        h_ellipsed = Some (length (safeLinesRequested h f) \<noteq> length (linesRequested f))\<rparr>"

definition inlineBody :: "helpers \<Rightarrow> fetched \<Rightarrow> jsstring" where
  "inlineBody h f =
     (let joined = js_join nl (safeLinesRequested h f)
      in if joined = [] then lit ''Couldn't find any lines'' else joined)"

definition inlineContent :: "helpers \<Rightarrow> fetched \<Rightarrow> jsstring" where
  "inlineContent h f = js_join nl [inlineHeader h f, codeBlock (f_lang f) (inlineBody h f)]"

text \<open>The second half of a turn of the loop: the result that is pushed.\<close>

definition emitResult :: "helpers \<Rightarrow> GitHubUrlType \<Rightarrow> fetched \<Rightarrow> ResolvedGitHubResult" where
  "emitResult h ty f =
     (if hasCodeBlock (linesRequested f) then asAttachment h ty f
      else if 2000 \<le> length (inlineContent h f) then asAttachment h ty f
      else \<lparr>content = inlineContent h f, files = []\<rparr>)"

text \<open>A turn of the loop: \<open>Inr (Some r)\<close> is \<open>results.push(r)\<close>.\<close>

definition resolveMatch :: "env \<Rightarrow> GitHubMatchResult \<Rightarrow> exn + ResolvedGitHubResult option" where
  "resolveMatch w m =
     (case fetchMatch w m of
        Inl e \<Rightarrow> Inl e
      | Inr None \<Rightarrow> Inr None
      | Inr (Some f) \<Rightarrow> Inr (Some (emitResult (hs w) (type m) f)))"

definition resolveMatch_api ::
  "env_api \<Rightarrow> GitHubMatchResult \<Rightarrow> exn + ResolvedGitHubResult option"
where
  "resolveMatch_api w m =
     (case fetchMatch_api w m of
        Inl e \<Rightarrow> Inl e
      | Inr None \<Rightarrow> Inr None
      | Inr (Some f) \<Rightarrow> Inr (Some (emitResult (hs_api w) (type m) f)))"

text \<open>The loop: the results in the order of the matches; an exception ends the call.\<close>

fun resolveLoop ::
  "('m \<Rightarrow> exn + 'r option) \<Rightarrow> 'm list \<Rightarrow> 'r list \<Rightarrow> exn + 'r list"
where
  "resolveLoop step [] results = Inr results"
| "resolveLoop step (m # ms) results =
     (case step m of
        Inl e \<Rightarrow> Inl e
      | Inr None \<Rightarrow> resolveLoop step ms results
      | Inr (Some r) \<Rightarrow> resolveLoop step ms (results @ [r]))"

definition resolveGitHubResults ::
  "env \<Rightarrow> GitHubMatchResult list \<Rightarrow> exn + ResolvedGitHubResult list"
where
  "resolveGitHubResults w ms = resolveLoop (resolveMatch w) ms []"

definition resolveGitHubResults_api ::
  "env_api \<Rightarrow> GitHubMatchResult list \<Rightarrow> exn + ResolvedGitHubResult list"
where
  "resolveGitHubResults_api w ms = resolveLoop (resolveMatch_api w) ms []"

section \<open>Helpers modelled from the specification\<close>

text \<open>
  The modules \<open>utils\<close>, \<open>array\<close>, \<open>regex\<close> and \<open>constants\<close> are not among the sources.
  The theorems on the handler hold for any helpers; the examples need helpers that
  compute, and these follow the specification. \<open>show_int\<close> is the decimal text of a
  number, as in a template string.
\<close>

fun show_nat :: "nat \<Rightarrow> jsstring" where
  "show_nat n =
     (if n < 10 then [of_nat (48 + n)] else show_nat (n div 10) @ [of_nat (48 + n mod 10)])"

declare show_nat.simps [simp del]

definition show_int :: "int \<Rightarrow> jsstring" where
  "show_int i = (if i < 0 then 45 # show_nat (nat (- i)) else show_nat (nat i))"

definition digits_value :: "jsstring \<Rightarrow> int" where
  "digits_value ds = foldl (\<lambda>n c. 10 * n + (uint c - 48)) 0 ds"

text \<open>A line marker \<open>L<digits>\<close> at the head of the string: its value and what follows.\<close>

fun line_at :: "jsstring \<Rightarrow> (int \<times> jsstring) option" where
  "line_at (a # b # cs) =
     (if a = 76 \<and> is_digit b
      then Some (digits_value (takeWhile is_digit (b # cs)), dropWhile is_digit (b # cs))
      else None)"
| "line_at _ = None"

fun find_line :: "jsstring \<Rightarrow> (int \<times> jsstring) option" where
  "find_line [] = None"
| "find_line (c # cs) = (case line_at (c # cs) of Some r \<Rightarrow> Some r | None \<Rightarrow> find_line cs)"

text \<open>
  Modelled from the spec: the parsing done by \<open>resolveLines\<close> (module \<open>utils\<close>, missing).
  ``Given an optional qualifier string matching a pattern like \<open>L<digits>\<close> or
  \<open>L<digits>-L<digits>\<close>, returns the start and end lines. If only a start marker is
  present, the end line is undefined. Malformed qualifiers must not throw.''
\<close>

definition spec_lines :: "jsstring option \<Rightarrow> int option \<times> int option" where
  "spec_lines q =
     (case q of
        None \<Rightarrow> (None, None)
      | Some s \<Rightarrow>
          (case find_line s of
             None \<Rightarrow> (None, None)
           | Some (a, rest) \<Rightarrow>
               (Some a,
                case rest of
                  [] \<Rightarrow> None
                | d # t \<Rightarrow> if d = 45 then map_option fst (line_at t) else None)))"

text \<open>
  Modelled from the spec: \<open>resolveLines\<close> as \<open>handler.ts\<close> uses it. ``If no line markers
  are present, the start line defaults to 1 and the end line is undefined.''
\<close>

definition spec_resolveLines :: "jsstring option \<Rightarrow> LineRange" where
  "spec_resolveLines q =
     (case spec_lines q of
        (a, b) \<Rightarrow> \<lparr>startLine = (case a of None \<Rightarrow> 1 | Some n \<Rightarrow> n), endLine = b\<rparr>)"

text \<open>
  Modelled from the spec: \<open>resolveLines\<close> as the second version uses it, where a missing
  start line stays undefined (``start line 1, or full-file'').
\<close>

definition spec_resolveLines_api :: "jsstring option \<Rightarrow> LineRange_api" where
  "spec_resolveLines_api q =
     (case spec_lines q of (a, b) \<Rightarrow> \<lparr>startLine_api = a, endLine_api = b\<rparr>)"

text \<open>
  Modelled from the spec: \<open>generateHeader\<close> (module \<open>utils\<close>, missing). ``Compute a header
  string: path plus the line range, marked as ellipsed if truncation will occur.'' The
  wording of the header is not given; the path and the range are written as they are.
\<close>

definition spec_generateHeader :: "HeaderOptions \<Rightarrow> jsstring" where
  "spec_generateHeader ho =
     h_path ho @ lit '' L'' @ show_int (h_startLine ho) @ lit ''-L'' @ show_int (h_endLine ho)
     @ (if h_ellipsed ho = Some True then lit '' (ellipsed)'' else [])"

text \<open>
  Modelled from the spec: \<open>formatLine\<close> (module \<open>utils\<close>, missing). ``Prefix with its
  absolute line number (aligned to the range width) and the line text.'' The styling
  for the language \<open>ansi\<close> is not given and is left out.
\<close>

definition spec_formatLine :: "jsstring \<Rightarrow> int \<Rightarrow> int \<Rightarrow> int \<Rightarrow> bool \<Rightarrow> jsstring" where
  "spec_formatLine line start end' index ansi =
     (let n = show_int (start + index)
      in replicate (length (show_int end') - length n) 32 @ n @ lit '' | '' @ line)"

definition indent :: "jsstring \<Rightarrow> nat" where
  "indent line = length (takeWhile (\<lambda>c. c = 32 \<or> c = 9) line)"

fun common_indent :: "jsstring list \<Rightarrow> nat" where
  "common_indent [] = 0"
| "common_indent [l] = indent l"
| "common_indent (l # ls) = min (indent l) (common_indent ls)"

text \<open>
  Modelled from the spec: \<open>trimLeadingIndent\<close> (module \<open>array\<close>, missing). ``Trim the
  common leading indentation shared by all lines in the slice.''
\<close>

definition spec_trimLeadingIndent :: "jsstring list \<Rightarrow> jsstring list" where
  "spec_trimLeadingIndent ls = map (drop (common_indent ls)) ls"

text \<open>
  Modelled from the spec: \<open>truncateArray\<close> (module \<open>array\<close>, missing). ``Truncate the
  formatted-line list so that [it] stays within a fixed message budget'': the longest
  prefix whose lines, each with its newline, fit in \<open>maxLength\<close>.
\<close>

fun spec_truncateArray :: "jsstring list \<Rightarrow> int \<Rightarrow> jsstring list" where
  "spec_truncateArray [] maxLength = []"
| "spec_truncateArray (x # xs) maxLength =
     (if int (length x) + 1 \<le> maxLength
      then x # spec_truncateArray xs (maxLength - (int (length x) + 1))
      else [])"

definition file_extension :: "jsstring \<Rightarrow> jsstring option" where
  "file_extension p =
     (let parts = js_split 46 (last (js_split 47 (takeWhile (\<lambda>c. c \<noteq> 35 \<and> c \<noteq> 63) p)))
      in if length parts < 2 \<or> last parts = [] then None else Some (last parts))"

definition lower_case :: "jsstring \<Rightarrow> jsstring" where
  "lower_case s = map (\<lambda>c. if 65 \<le> c \<and> c \<le> 90 then c + 32 else c) s"

definition language_table :: "jsstring list" where
  "language_table = map lit [''go'', ''js'', ''md'', ''py'', ''rs'', ''ts'']"

text \<open>
  Modelled from the spec: \<open>resolveFileLanguage\<close> (module \<open>utils\<close>, missing). ``Returns a
  lowercase language tag derived from the file extension, falling back to \<open>ansi\<close> when
  the extension is unknown or absent.'' The table of languages is a short one.
\<close>

definition spec_resolveFileLanguage :: "jsstring \<Rightarrow> jsstring" where
  "spec_resolveFileLanguage p =
     (case file_extension p of
        None \<Rightarrow> lit ''ansi''
      | Some e \<Rightarrow> if lower_case e \<in> set language_table then lower_case e else lit ''ansi'')"

definition spec_helpers :: helpers where
  "spec_helpers =
     \<lparr>formatLine = spec_formatLine, generateHeader = spec_generateHeader,
      resolveFileLanguage = spec_resolveFileLanguage,
      trimLeadingIndent = spec_trimLeadingIndent, truncateArray = spec_truncateArray\<rparr>"

text \<open>
  Modelled from the spec: \<open>URL_REGEX\<close> (module \<open>constants\<close>, missing), ``a generic URL
  pattern'': the words of the text that begin with \<open>https://\<close>.
\<close>

definition spec_URL_REGEX :: "jsstring \<Rightarrow> jsstring list" where
  "spec_URL_REGEX t = filter (\<lambda>w. startsWith w (lit ''https://'')) (js_split 32 t)"

definition fragment :: "jsstring \<Rightarrow> jsstring" where
  "fragment u = dropWhile (\<lambda>c. c \<noteq> 35) u"

text \<open>
  Modelled from the spec: \<open>NormalGitHubUrlRegex\<close> (module \<open>regex\<close>, missing): a link to
  a file of a repository, with \<open>/blob/\<close> or \<open>/blame/\<close> in its path; the group \<open>opts\<close> is
  the qualifier after \<open>#\<close> (\<open>L5-L10\<close> in \<open>https://github.com/u/r/blob/main/f.go#L5-L10\<close>).
\<close>

definition spec_NormalGitHubUrlRegex :: regex where
  "spec_NormalGitHubUrlRegex u =
     (if startsWith u (lit ''https://github.com/'')
         \<and> (js_includes u (lit ''/blob/'') \<or> js_includes u (lit ''/blame/''))
      then Some \<lparr>m_whole = u,
                 m_groups = \<lparr>g_user = None, g_id = None,
                             g_opts = (if fragment u = [] then None else Some (tl (fragment u)))\<rparr>\<rparr>
      else None)"

text \<open>
  Modelled from the spec: \<open>GistGitHubUrlRegex\<close> (module \<open>regex\<close>, missing): a link to a
  Gist. The pattern ``must supply: the matched full URL, an optional line/file qualifier,
  and (Gist only) user+id'': a link is matched when its path begins with a user and an
  id, both not empty, and the groups \<open>user\<close> and \<open>id\<close> hold them; the group \<open>opts\<close> is
  the file qualifier after \<open>#file-\<close>, undefined when the link has none.
\<close>

definition spec_GistGitHubUrlRegex :: regex where
  "spec_GistGitHubUrlRegex u =
     (if startsWith u (lit ''https://gist.github.com/'') then
        (case js_split 47 (takeWhile (\<lambda>c. c \<noteq> 35) (drop 24 u)) of
           user # ident # rest \<Rightarrow>
             if user = [] \<or> ident = [] then None
             else Some \<lparr>m_whole = u,
                        m_groups =
                          \<lparr>g_user = Some user, g_id = Some ident,
                           g_opts = (if startsWith (fragment u) (lit ''#file-'')
                                     then Some (drop 6 (fragment u)) else None)\<rparr>\<rparr>
         | _ \<Rightarrow> None)
      else None)"

section \<open>A world for the examples\<close>

text \<open>
  The URL parser of the examples. It answers as \<open>new URL(u).pathname\<close> on the URLs the
  examples use and is \<open>None\<close> on every other string: the scheme is \<open>https\<close>, the host
  is made of labels of lower-case letters, and the path is made of segments of letters,
  digits, \<open>-\<close>, \<open>.\<close>, \<open>_\<close> and \<open>~\<close>, none of them \<open>.\<close> or \<open>..\<close>. On such a URL the
  constructor neither escapes a character of the path nor resolves a segment, and the
  path name is the text from the first \<open>/\<close> after the host up to \<open>?\<close> or \<open>#\<close>, and \<open>/\<close>
  when there is none. What the constructor does with any other string (escaping, dot
  segments, ports, user information) is not described here.
\<close>

definition plain_char :: "16 word \<Rightarrow> bool" where
  "plain_char c =
     (97 \<le> c \<and> c \<le> 122 \<or> 65 \<le> c \<and> c \<le> 90 \<or> 48 \<le> c \<and> c \<le> 57
      \<or> c = 45 \<or> c = 46 \<or> c = 95 \<or> c = 126)"

definition plain_host :: "jsstring \<Rightarrow> bool" where
  "plain_host h =
     list_all (\<lambda>l. l \<noteq> [] \<and> list_all (\<lambda>c. 97 \<le> c \<and> c \<le> 122) l) (js_split 46 h)"

definition plain_path :: "jsstring \<Rightarrow> bool" where
  "plain_path p =
     (list_all (\<lambda>c. plain_char c \<or> c = 47) p
      \<and> list_all (\<lambda>s. s \<noteq> lit ''.'' \<and> s \<noteq> lit ''..'') (js_split 47 p))"

definition demo_pathname :: "jsstring \<Rightarrow> jsstring option" where
  "demo_pathname u =
     (if startsWith u (lit ''https://'') then
        (let rest = drop 8 u;
             host = takeWhile (\<lambda>c. c \<noteq> 47 \<and> c \<noteq> 63 \<and> c \<noteq> 35) rest;
             p = takeWhile (\<lambda>c. c \<noteq> 63 \<and> c \<noteq> 35)
                   (dropWhile (\<lambda>c. c \<noteq> 47 \<and> c \<noteq> 63 \<and> c \<noteq> 35) rest)
         in if plain_host host \<and> plain_path p then Some (if p = [] then lit ''/'' else p)
            else None)
      else None)"

definition demo_file :: jsstring where
  "demo_file =
     js_join nl (map lit [''package main'', '''', ''func main() {'', ''    run()'', ''}''])"

definition demo_readme :: jsstring where
  "demo_readme = js_join nl (map lit [''# Build'', ''```sh'', ''make'', ''```''])"

text \<open>
  A server: the repository \<open>u/docs\<close> holds a readme with a code fence, the repository
  \<open>u/gone\<close> is not found, a request for the repository \<open>u/offline\<close> is rejected
  (the connection fails), every other raw file is a Go file of five lines; a request to
  another host is rejected.
\<close>

definition demo_request :: "jsstring \<Rightarrow> exn + response" where
  "demo_request u =
     (if startsWith u (lit ''https://raw.githubusercontent.com/u/offline/'')
      then Inl NetworkError
      else if startsWith u (lit ''https://raw.githubusercontent.com/u/docs/'')
      then Inr \<lparr>statusCode = 200, body_text = demo_readme\<rparr>
      else if startsWith u (lit ''https://raw.githubusercontent.com/u/gone/'')
      then Inr \<lparr>statusCode = 404, body_text = lit ''404: Not Found''\<rparr>
      else if startsWith u (lit ''https://raw.githubusercontent.com/'')
              \<or> startsWith u (lit ''https://gist.githubusercontent.com/'')
      then Inr \<lparr>statusCode = 200, body_text = demo_file\<rparr>
      else Inl NetworkError)"

definition demo_env :: env where
  "demo_env = \<lparr>hs = spec_helpers, resolveLines = spec_resolveLines, request = demo_request,
                pathname = demo_pathname\<rparr>"

definition demo_fetch :: "jsstring \<Rightarrow> exn + response_api" where
  "demo_fetch u =
     (if startsWith u (lit ''https://api.github.com/gists/'')
      then Inr \<lparr>status = 200, text_body = [],
                json_body = Some (JObject (Some [(lit ''main.go'', demo_file),
                                                 (lit ''README.md'', demo_readme)]))\<rparr>
      else if startsWith u (lit ''https://raw.githubusercontent.com/u/offline/'')
      then Inl NetworkError
      else if startsWith u (lit ''https://raw.githubusercontent.com/u/docs/'')
      then Inr \<lparr>status = 200, text_body = demo_readme, json_body = None\<rparr>
      else if startsWith u (lit ''https://raw.githubusercontent.com/u/gone/'')
      then Inr \<lparr>status = 404, text_body = lit ''404: Not Found'', json_body = None\<rparr>
      else if startsWith u (lit ''https://raw.githubusercontent.com/'')
      then Inr \<lparr>status = 200, text_body = demo_file, json_body = None\<rparr>
      else Inl NetworkError)"

definition demo_env_api :: env_api where
  "demo_env_api = \<lparr>hs_api = spec_helpers, resolveLines_api = spec_resolveLines_api,
                    fetch = demo_fetch, pathname_api = demo_pathname\<rparr>"

definition demo_validators :: "validator list" where
  "demo_validators = validators spec_NormalGitHubUrlRegex spec_GistGitHubUrlRegex"

text \<open>The matches of the examples, as \<open>matchGitHubUrls\<close> builds them.\<close>

definition normal_match :: "jsstring \<Rightarrow> jsstring option \<Rightarrow> GitHubMatchResult" where
  "normal_match u q =
     \<lparr>converter = converter_Normal, opts = q, regex = spec_NormalGitHubUrlRegex,
      type = Normal, url = u\<rparr>"

definition gist_match :: "jsstring \<Rightarrow> jsstring option \<Rightarrow> GitHubMatchResult" where
  "gist_match u q =
     \<lparr>converter = converter_Gist spec_GistGitHubUrlRegex, opts = q,
      regex = spec_GistGitHubUrlRegex, type = Gist, url = u\<rparr>"

definition gist_match_api :: "jsstring \<Rightarrow> jsstring option \<Rightarrow> GitHubMatchResult" where
  "gist_match_api u q =
     \<lparr>converter = converter_Gist_api spec_GistGitHubUrlRegex, opts = q,
      regex = spec_GistGitHubUrlRegex, type = Gist, url = u\<rparr>"

definition code_match :: GitHubMatchResult where
  "code_match =
     normal_match (lit ''https://github.com/u/r/blob/main/f.go#L3-L4'') (Some (lit ''L3-L4''))"

definition readme_match :: GitHubMatchResult where
  "readme_match =
     normal_match (lit ''https://github.com/u/docs/blob/main/README.md#L1-L9'')
       (Some (lit ''L1-L9''))"

definition gone_match :: GitHubMatchResult where
  "gone_match =
     normal_match (lit ''https://github.com/u/gone/blob/main/f.go#L1'') (Some (lit ''L1''))"

definition offline_match :: GitHubMatchResult where
  "offline_match =
     normal_match (lit ''https://github.com/u/offline/blob/main/f.go#L1'') (Some (lit ''L1''))"

definition huge_match :: GitHubMatchResult where
  "huge_match =
     normal_match (lit ''https://github.com/u/r/blob/main/f.go#L1-L1000000'')
       (Some (lit ''L1-L1000000''))"

definition zero_match :: GitHubMatchResult where
  "zero_match =
     normal_match (lit ''https://github.com/u/r/blob/main/f.go#L0'') (Some (lit ''L0''))"

definition gist_readme_match :: GitHubMatchResult where
  "gist_readme_match =
     gist_match_api (lit ''https://gist.github.com/u/abc#file-README-md'')
       (Some (lit ''README-md''))"

definition gist_code_match :: GitHubMatchResult where
  "gist_code_match =
     gist_match_api (lit ''https://gist.github.com/u/abc#file-main-go-L3-L4'')
       (Some (lit ''main-go-L3-L4''))"

text \<open>What is fetched for these matches, and the results pushed for them.\<close>

definition huge_fetched :: fetched where
  "huge_fetched =
     \<lparr>f_path = lit ''/u/r/blob/main/f.go'', f_lang = lit ''go'', f_start = 1, f_end = 5,
      f_lines = js_split 10 demo_file\<rparr>"

definition readme_fetched :: fetched where
  "readme_fetched =
     \<lparr>f_path = lit ''/u/docs/blob/main/README.md'', f_lang = lit ''md'', f_start = 1,
      f_end = 4, f_lines = js_split 10 demo_readme\<rparr>"

definition gist_readme_fetched :: fetched where
  "gist_readme_fetched =
     \<lparr>f_path = lit ''/u/abc#file-README-md'', f_lang = lit ''md'', f_start = 1, f_end = 4,
      f_lines = js_split 10 demo_readme\<rparr>"

definition gist_code_fetched :: fetched where
  "gist_code_fetched =
     \<lparr>f_path = lit ''/u/abc#file-main-go'', f_lang = lit ''go'', f_start = 3, f_end = 4,
      f_lines = js_split 10 demo_file\<rparr>"

definition code_result :: ResolvedGitHubResult where
  "code_result =
     \<lparr>content = js_join nl (map lit [''/u/r/blob/main/f.go L3-L4'', ''```go'',
                   ''3 | func main() {'', ''4 |     run()'', ''```'']),
      files = []\<rparr>"

definition readme_result :: ResolvedGitHubResult where
  "readme_result =
     \<lparr>content = lit ''/u/docs/blob/main/README.md L1-L4'',
      files = [\<lparr>attachment = Buffer_from demo_readme,
                name = lit ''/u/docs/blob/main/README.md''\<rparr>]\<rparr>"

definition gist_code_result :: ResolvedGitHubResult where
  "gist_code_result =
     \<lparr>content = js_join nl (map lit [''/u/abc#file-main-go L3-L4'', ''```go'',
                   ''3 | func main() {'', ''4 |     run()'', ''```'']),
      files = []\<rparr>"

definition gist_readme_result :: ResolvedGitHubResult where
  "gist_readme_result =
     \<lparr>content = lit ''/u/abc#file-README-md L1-L4'',
      files = [\<lparr>attachment = Buffer_from demo_readme,
                name = lit ''/u/abc#file-README-md.md''\<rparr>]\<rparr>"

definition fifty_lines :: "jsstring list" where
  "fifty_lines = replicate 50 (lit ''x'')"

text \<open>A file whose name has 2000 characters, so that the path shown has more.\<close>

definition long_name :: jsstring where
  "long_name = replicate 2000 97"

definition long_match :: GitHubMatchResult where
  "long_match =
     normal_match (lit ''https://github.com/u/r/blob/main/'' @ long_name @ lit ''#L1-L2'')
       (Some (lit ''L1-L2''))"

definition long_fetched :: fetched where
  "long_fetched =
     \<lparr>f_path = lit ''/u/r/blob/main/'' @ long_name,
      f_lang = spec_resolveFileLanguage
                 (lit ''https://raw.githubusercontent.com/u/r/main/'' @ long_name @ lit ''#L1-L2''),
      f_start = 1, f_end = 2, f_lines = js_split 10 demo_file\<rparr>"

text \<open>A start line of zero, and a Gist whose URL lacks the file qualifier.\<close>

definition zero_fetched :: fetched where
  "zero_fetched =
     \<lparr>f_path = lit ''/u/r/blob/main/f.go'', f_lang = lit ''go'', f_start = 0, f_end = 0,
      f_lines = js_split 10 demo_file\<rparr>"



section \<open>The loop of resolveGitHubResults\<close>

text \<open>
  When no turn throws, the results are those of the turns, in the order of the matches;
  when a turn throws, the call throws; a turn that ends in \<open>continue\<close> leaves no trace.
\<close>

lemma resolveLoop_acc:
  "resolveLoop step ms acc =
     (case resolveLoop step ms [] of Inl e \<Rightarrow> Inl e | Inr rs \<Rightarrow> Inr (acc @ rs))"
proof (induction ms arbitrary: acc)
  case Nil
  show ?case by simp
next
  case (Cons m ms)
  show ?case
  proof (cases "step m")
    case (Inl e)
    then show ?thesis by simp
  next
    case (Inr v)
    show ?thesis
    proof (cases v)
      case None
      with Inr Cons [of acc] show ?thesis by simp
    next
      case (Some r)
      with Inr Cons [of "acc @ [r]"] Cons [of "[r]"] show ?thesis
        by (simp split: sum.splits)
    qed
  qed
qed

lemma resolveLoop_no_throw:
  "\<forall>m\<in>set ms. \<forall>e. step m \<noteq> Inl e \<Longrightarrow>
   resolveLoop step ms acc
     = Inr (acc @ concat (map (\<lambda>m. case step m of Inr (Some r) \<Rightarrow> [r] | _ \<Rightarrow> []) ms))"
proof (induction ms arbitrary: acc)
  case Nil
  show ?case by simp
next
  case (Cons m ms)
  then have ih: "\<And>acc. resolveLoop step ms acc
     = Inr (acc @ concat (map (\<lambda>m. case step m of Inr (Some r) \<Rightarrow> [r] | _ \<Rightarrow> []) ms))"
    by simp
  from Cons.prems have "\<forall>e. step m \<noteq> Inl e" by simp
  then show ?case
    by (cases "step m") (auto simp: ih split: option.splits)
qed

lemma resolveLoop_throw:
  "m \<in> set ms \<Longrightarrow> step m = Inl e \<Longrightarrow> \<exists>e'. resolveLoop step ms acc = Inl e'"
proof (induction ms arbitrary: acc)
  case Nil
  then show ?case by simp
next
  case (Cons a ms)
  show ?case
  proof (cases "step a")
    case (Inl e')
    then show ?thesis by simp
  next
    case (Inr v)
    with Cons.prems have "m \<in> set ms" by auto
    with Cons.IH Cons.prems(2) have "\<And>acc. \<exists>e'. resolveLoop step ms acc = Inl e'" by blast
    with Inr show ?thesis by (cases v) simp_all
  qed
qed

lemma resolveLoop_Inr:
  assumes "resolveLoop step ms acc = Inr rs"
  shows "(\<forall>m\<in>set ms. \<forall>e. step m \<noteq> Inl e)
    \<and> rs = acc @ concat (map (\<lambda>m. case step m of Inr (Some r) \<Rightarrow> [r] | _ \<Rightarrow> []) ms)"
proof -
  have nt: "\<forall>m\<in>set ms. \<forall>e. step m \<noteq> Inl e"
  proof (intro ballI allI notI)
    fix m e
    assume "m \<in> set ms" "step m = Inl e"
    then have "\<exists>e'. resolveLoop step ms acc = Inl e'" by (rule resolveLoop_throw)
    with assms show False by simp
  qed
  with assms resolveLoop_no_throw [of ms step acc] show ?thesis by simp
qed

lemma resolveLoop_member:
  assumes "resolveLoop step ms [] = Inr rs" "r \<in> set rs"
  shows "\<exists>m\<in>set ms. step m = Inr (Some r)"
proof -
  from resolveLoop_Inr [OF assms(1)]
  have "rs = concat (map (\<lambda>m. case step m of Inr (Some r) \<Rightarrow> [r] | _ \<Rightarrow> []) ms)" by simp
  with assms(2) obtain m where "m \<in> set ms"
    and "r \<in> set (case step m of Inr (Some r) \<Rightarrow> [r] | _ \<Rightarrow> [])"
    by auto
  then show ?thesis
    by (auto split: sum.splits option.splits)
qed

lemma resolveLoop_emits:
  assumes "resolveLoop step ms [] = Inr rs" "m \<in> set ms" "step m = Inr (Some r)"
  shows "r \<in> set rs"
proof -
  from resolveLoop_Inr [OF assms(1)]
  have "rs = concat (map (\<lambda>m. case step m of Inr (Some r) \<Rightarrow> [r] | _ \<Rightarrow> []) ms)" by simp
  with assms(2,3) show ?thesis by force
qed


lemma results_no_throw:
  assumes "\<forall>m\<in>set ms. \<forall>e. step m \<noteq> Inl e"
  shows "resolveLoop step ms []
    = Inr (concat (map (\<lambda>m. case step m of Inr (Some r) \<Rightarrow> [r] | _ \<Rightarrow> []) ms))"
  using resolveLoop_no_throw [OF assms, of "[]"] by simp

lemma results_throw:
  assumes "\<exists>m\<in>set ms. \<exists>e. step m = Inl e"
  shows "\<exists>e. resolveLoop step ms [] = Inl e"
  using assms resolveLoop_throw [of _ ms step _ "[]"] by blast

lemma resolve_single:
  "resolveMatch w m = Inr (Some r) \<Longrightarrow> resolveGitHubResults w [m] = Inr [r]"
  by (simp add: resolveGitHubResults_def)

lemma resolve_single_api:
  "resolveMatch_api w m = Inr (Some r) \<Longrightarrow> resolveGitHubResults_api w [m] = Inr [r]"
  by (simp add: resolveGitHubResults_api_def)

text \<open>
  When the first half of a turn ends with a file in hand; a result that is pushed comes
  from such a file, and has one of two forms.
\<close>

lemma fetchMatch_Some_iff:
  "fetchMatch w m = Inr (Some f) \<longleftrightarrow>
     (\<exists>rawUrl res path.
        converter m (url m) = Inr (Some rawUrl) \<and> rawUrl \<noteq> []
        \<and> request w rawUrl = Inr res \<and> statusCode res = 200 \<and> body_text res \<noteq> []
        \<and> pathname w (url m) = Some path
        \<and> f = \<lparr>f_path = path, f_lang = resolveFileLanguage (hs w) rawUrl,
                 f_start = fst (safeLines (resolveLines w (opts m)) (js_split 10 (body_text res))),
                 f_end = snd (safeLines (resolveLines w (opts m)) (js_split 10 (body_text res))),
                 f_lines = js_split 10 (body_text res)\<rparr>)"
  by (auto simp: fetchMatch_def Let_def falsy_def
      split: sum.splits option.splits if_splits prod.splits)

lemma fetchMatch_api_Some_iff:
  "fetchMatch_api w m = Inr (Some f) \<longleftrightarrow>
     (\<exists>rawData res rawFile contents lang path.
        converter m (url m) = Inr (Some rawData) \<and> rawData \<noteq> []
        \<and> fetch w rawData = Inr res \<and> rawFile_api (type m) res = Inr rawFile
        \<and> fileContents (type m) rawFile (opts m) = Inr (Some contents) \<and> contents \<noteq> []
        \<and> lang_api (hs_api w) (type m) (opts m) rawData = Inr lang
        \<and> path_api (pathname_api w) (type m) (opts m) (url m) = Inr path
        \<and> f = \<lparr>f_path = path, f_lang = lang,
                 f_start = fst (safeLines_api (resolveLines_api w (opts m)) (js_split 10 contents)),
                 f_end = snd (safeLines_api (resolveLines_api w (opts m)) (js_split 10 contents)),
                 f_lines = js_split 10 contents\<rparr>)"
  by (auto simp: fetchMatch_api_def Let_def fileContents_def
      split: sum.splits option.splits if_splits prod.splits json.splits)

lemma resolveMatch_Some:
  "resolveMatch w m = Inr (Some r) \<longleftrightarrow>
     (\<exists>f. fetchMatch w m = Inr (Some f) \<and> r = emitResult (hs w) (type m) f)"
  by (auto simp: resolveMatch_def split: sum.splits option.splits)

lemma resolveMatch_api_Some:
  "resolveMatch_api w m = Inr (Some r) \<longleftrightarrow>
     (\<exists>f. fetchMatch_api w m = Inr (Some f) \<and> r = emitResult (hs_api w) (type m) f)"
  by (auto simp: resolveMatch_api_def split: sum.splits option.splits)

lemma result_origin:
  assumes "resolveGitHubResults w ms = Inr rs" "r \<in> set rs"
  shows "\<exists>m\<in>set ms. \<exists>f. fetchMatch w m = Inr (Some f) \<and> r = emitResult (hs w) (type m) f"
  using resolveLoop_member [of "resolveMatch w" ms rs r] assms
  by (simp add: resolveGitHubResults_def resolveMatch_Some)

lemma result_origin_api:
  assumes "resolveGitHubResults_api w ms = Inr rs" "r \<in> set rs"
  shows "\<exists>m\<in>set ms. \<exists>f. fetchMatch_api w m = Inr (Some f) \<and> r = emitResult (hs_api w) (type m) f"
  using resolveLoop_member [of "resolveMatch_api w" ms rs r] assms
  by (simp add: resolveGitHubResults_api_def resolveMatch_api_Some)

lemma emitResult_cases:
  "emitResult h ty f = asAttachment h ty f
     \<and> (hasCodeBlock (linesRequested f) \<or> 2000 \<le> length (inlineContent h f))
   \<or> emitResult h ty f = \<lparr>content = inlineContent h f, files = []\<rparr>
     \<and> \<not> hasCodeBlock (linesRequested f) \<and> length (inlineContent h f) < 2000"
  by (auto simp: emitResult_def)

lemma inlineContent_shape:
  "inlineContent h f
     = inlineHeader h f @ nl @ lit ''```'' @ f_lang f @ nl @ inlineBody h f @ nl @ lit ''```''"
  by (simp add: inlineContent_def codeBlock_def)

lemma inlineBody_placeholder:
  "safeLinesRequested h f = [] \<Longrightarrow> inlineBody h f = lit ''Couldn't find any lines''"
  by (simp add: inlineBody_def)

lemma emitResult_shape:
  "(files (emitResult h ty f) = []
      \<and> content (emitResult h ty f)
          = inlineHeader h f @ nl @ lit ''```'' @ f_lang f @ nl @ inlineBody h f @ nl @ lit ''```'')
   \<or> (\<exists>a. files (emitResult h ty f) = [a]
         \<and> attachment a = Buffer_from (js_join nl (linesRequested f)))"
  using emitResult_cases [of h ty f]
  by (auto simp: inlineContent_shape asAttachment_def)

lemma emitResult_length:
  "(files (emitResult h ty f) = [] \<and> length (content (emitResult h ty f)) < 2000)
   \<or> (content (emitResult h ty f) = header h f \<and> length (files (emitResult h ty f)) = 1)"
  using emitResult_cases [of h ty f]
  by (auto simp: asAttachment_def)

lemma fence_attachment:
  assumes "fetchMatch w m = Inr (Some f)" "hasCodeBlock (linesRequested f)"
  shows "resolveMatch w m = Inr (Some (asAttachment (hs w) (type m) f))"
  using assms by (simp add: resolveMatch_def emitResult_def)

lemma fence_attachment_api:
  assumes "fetchMatch_api w m = Inr (Some f)" "hasCodeBlock (linesRequested f)"
  shows "resolveMatch_api w m = Inr (Some (asAttachment (hs_api w) (type m) f))"
  using assms by (simp add: resolveMatch_api_def emitResult_def)

lemma oversized_attachment:
  assumes "fetchMatch w m = Inr (Some f)" "2000 \<le> length (inlineContent (hs w) f)"
  shows "resolveMatch w m = Inr (Some (asAttachment (hs w) (type m) f))"
  using assms by (simp add: resolveMatch_def emitResult_def)

lemma oversized_attachment_api:
  assumes "fetchMatch_api w m = Inr (Some f)" "2000 \<le> length (inlineContent (hs_api w) f)"
  shows "resolveMatch_api w m = Inr (Some (asAttachment (hs_api w) (type m) f))"
  using assms by (simp add: resolveMatch_api_def emitResult_def)



section \<open>The line range\<close>

lemma safeLines_le:
  "fst (safeLines r pl) \<le> int (length pl) \<and> snd (safeLines r pl) \<le> int (length pl)"
  by (simp add: safeLines_def)

lemma safeLines_api_le:
  "fst (safeLines_api r pl) \<le> int (length pl) \<and> snd (safeLines_api r pl) \<le> int (length pl)"
  by (simp add: safeLines_api_def)

lemma js_slice_all: "js_slice xs 0 (int (length xs)) = xs"
  by (simp add: js_slice_def)

lemma linesRequested_all:
  "f_start f = 1 \<Longrightarrow> f_end f = int (length (f_lines f)) \<Longrightarrow> linesRequested f = f_lines f"
  by (simp add: linesRequested_def js_slice_all)

lemma js_split_nonempty: "js_split sep s \<noteq> []"
  by (induction s) (auto split: list.splits)

lemma safeLines_single:
  "endLine r = None \<Longrightarrow>
   safeLines r pl = (min (startLine r) (int (length pl)), min (startLine r) (int (length pl)))"
  by (simp add: safeLines_def)

lemma safeLines_api_single:
  "endLine_api r = None \<Longrightarrow> startLine_api r = Some s \<Longrightarrow> s \<noteq> 0 \<Longrightarrow>
   safeLines_api r pl = (min s (int (length pl)), min s (int (length pl)))"
  by (simp add: safeLines_api_def or_else_def)

lemma safeLines_api_whole:
  assumes "endLine_api r = None" "startLine_api r = None \<or> startLine_api r = Some 0" "pl \<noteq> []"
  shows "safeLines_api r pl = (1, int (length pl))"
    and "linesRequested \<lparr>f_path = p, f_lang = l, f_start = fst (safeLines_api r pl),
           f_end = snd (safeLines_api r pl), f_lines = pl\<rparr> = pl"
proof -
  from assms(3) have "1 \<le> int (length pl)"
    by (cases pl) simp_all
  with assms(1,2) show a: "safeLines_api r pl = (1, int (length pl))"
    by (auto simp: safeLines_api_def or_else_def)
  show "linesRequested \<lparr>f_path = p, f_lang = l, f_start = fst (safeLines_api r pl),
           f_end = snd (safeLines_api r pl), f_lines = pl\<rparr> = pl"
    by (simp add: a linesRequested_def js_slice_def)
qed

lemma fetched_range:
  "fetchMatch w m = Inr (Some f) \<Longrightarrow>
   (f_start f, f_end f) = safeLines (resolveLines w (opts m)) (f_lines f)"
  by (auto simp: fetchMatch_def Let_def split: sum.splits option.splits if_splits prod.splits)

lemma fetched_range_api:
  "fetchMatch_api w m = Inr (Some f) \<Longrightarrow>
   (f_start f, f_end f) = safeLines_api (resolveLines_api w (opts m)) (f_lines f)"
  by (auto simp: fetchMatch_api_def Let_def split: sum.splits option.splits if_splits prod.splits)

lemma fetchMatch_any_range:
  assumes "fetchMatch w m = Inr (Some f)"
  shows "fetchMatch (w\<lparr>resolveLines := g\<rparr>) m
    = Inr (Some (f\<lparr>f_start := fst (safeLines (g (opts m)) (f_lines f)),
                   f_end := snd (safeLines (g (opts m)) (f_lines f))\<rparr>))"
  using assms
  by (auto simp: fetchMatch_def Let_def split: sum.splits option.splits if_splits prod.splits)

lemma fetchMatch_api_any_range:
  assumes "fetchMatch_api w m = Inr (Some f)"
  shows "fetchMatch_api (w\<lparr>resolveLines_api := g\<rparr>) m
    = Inr (Some (f\<lparr>f_start := fst (safeLines_api (g (opts m)) (f_lines f)),
                   f_end := snd (safeLines_api (g (opts m)) (f_lines f))\<rparr>))"
  using assms
  by (auto simp: fetchMatch_api_def Let_def split: sum.splits option.splits if_splits prod.splits)

lemma any_range:
  assumes "fetchMatch w m = Inr (Some f)"
  shows "resolveMatch (w\<lparr>resolveLines := g\<rparr>) m
    = Inr (Some (emitResult (hs w) (type m)
        (f\<lparr>f_start := fst (safeLines (g (opts m)) (f_lines f)),
           f_end := snd (safeLines (g (opts m)) (f_lines f))\<rparr>)))"
  using fetchMatch_any_range [OF assms, of g] by (simp add: resolveMatch_def)

lemma any_range_api:
  assumes "fetchMatch_api w m = Inr (Some f)"
  shows "resolveMatch_api (w\<lparr>resolveLines_api := g\<rparr>) m
    = Inr (Some (emitResult (hs_api w) (type m)
        (f\<lparr>f_start := fst (safeLines_api (g (opts m)) (f_lines f)),
           f_end := snd (safeLines_api (g (opts m)) (f_lines f))\<rparr>)))"
  using fetchMatch_api_any_range [OF assms, of g] by (simp add: resolveMatch_api_def)

lemma fifty:
  assumes "length pl = 50"
  shows "safeLines \<lparr>startLine = 1, endLine = Some 1000000\<rparr> pl = (1, 50)"
    and "safeLines_api \<lparr>startLine_api = Some 1, endLine_api = Some 1000000\<rparr> pl = (1, 50)"
    and "linesRequested \<lparr>f_path = p, f_lang = l, f_start = 1, f_end = 50, f_lines = pl\<rparr> = pl"
  using assms by (simp_all add: safeLines_def safeLines_api_def or_else_def linesRequested_def js_slice_def)

section \<open>The examples, evaluated\<close>

lemmas match_defs = normal_match_def gist_match_def gist_match_api_def code_match_def
  readme_match_def gone_match_def huge_match_def zero_match_def
  gist_readme_match_def gist_code_match_def

lemma fetch_huge_match: "fetchMatch demo_env huge_match
   = Inr (Some \<lparr>f_path = lit ''/u/r/blob/main/f.go'', f_lang = lit ''go'', f_start = 1, f_end = 5,
                 f_lines = js_split 10 demo_file\<rparr>)"
  by code_simp

lemma fetch_readme_match: "fetchMatch demo_env readme_match
   = Inr (Some \<lparr>f_path = lit ''/u/docs/blob/main/README.md'', f_lang = lit ''md'', f_start = 1, f_end = 4,
                 f_lines = js_split 10 demo_readme\<rparr>)"
  by code_simp

lemma fetch_gist_readme_match: "fetchMatch_api demo_env_api gist_readme_match
   = Inr (Some \<lparr>f_path = lit ''/u/abc#file-README-md'', f_lang = lit ''md'', f_start = 1, f_end = 4,
                 f_lines = js_split 10 demo_readme\<rparr>)"
  by code_simp

lemma fetch_gist_code_match: "fetchMatch_api demo_env_api gist_code_match
   = Inr (Some \<lparr>f_path = lit ''/u/abc#file-main-go'', f_lang = lit ''go'', f_start = 3, f_end = 4,
                 f_lines = js_split 10 demo_file\<rparr>)"
  by code_simp

lemma resolve_zero_match: "resolveGitHubResults demo_env [zero_match]
   = Inr [\<lparr>content = js_join nl (map lit [''/u/r/blob/main/f.go L0-L-1'', ''```go'',
              ''Couldn't find any lines'', ''```'']), files = []\<rparr>]"
  by code_simp

lemma readme_fence:
  "hasCodeBlock (linesRequested \<lparr>f_path = p, f_lang = l, f_start = 1, f_end = 4,
     f_lines = js_split 10 demo_readme\<rparr>)"
  by code_simp

lemma readme_attachment:
  "asAttachment spec_helpers Normal
     \<lparr>f_path = lit ''/u/docs/blob/main/README.md'', f_lang = lit ''md'', f_start = 1, f_end = 4,
      f_lines = js_split 10 demo_readme\<rparr>
   = \<lparr>content = lit ''/u/docs/blob/main/README.md L1-L4'',
      files = [\<lparr>attachment = Buffer_from demo_readme,
                name = lit ''/u/docs/blob/main/README.md''\<rparr>]\<rparr>"
  by code_simp

lemma gist_readme_attachment:
  "asAttachment spec_helpers Gist
     \<lparr>f_path = lit ''/u/abc#file-README-md'', f_lang = lit ''md'', f_start = 1, f_end = 4,
      f_lines = js_split 10 demo_readme\<rparr>
   = \<lparr>content = lit ''/u/abc#file-README-md L1-L4'',
      files = [\<lparr>attachment = Buffer_from demo_readme,
                name = lit ''/u/abc#file-README-md.md''\<rparr>]\<rparr>"
  by code_simp

lemma huge_lines:
  "spec_resolveLines (opts huge_match) = \<lparr>startLine = 1, endLine = Some 1000000\<rparr>"
  "spec_resolveLines_api (opts gist_code_match) = \<lparr>startLine_api = Some 3, endLine_api = Some 4\<rparr>"
  by code_simp+

lemma demo_lines: "length (js_split 10 demo_file) = 5"
  by code_simp

lemma two_links:
  "spec_URL_REGEX
     (lit ''https://github.com/u/r/blob/main/f.go#L3-L4 https://github.com/u/r/blob/main/f.go#L3-L4'')
   = [lit ''https://github.com/u/r/blob/main/f.go#L3-L4'',
      lit ''https://github.com/u/r/blob/main/f.go#L3-L4'']"
  by code_simp

lemma code_link_Normal:
  "spec_NormalGitHubUrlRegex (lit ''https://github.com/u/r/blob/main/f.go#L3-L4'')
     = Some \<lparr>m_whole = lit ''https://github.com/u/r/blob/main/f.go#L3-L4'',
             m_groups = \<lparr>g_user = None, g_id = None, g_opts = Some (lit ''L3-L4'')\<rparr>\<rparr>"
  by code_simp

lemma resolve_values:
  "resolveMatch demo_env gone_match = Inr None"
  "resolveMatch demo_env code_match = Inr (Some code_result)"
  "resolveMatch demo_env readme_match = Inr (Some readme_result)"
  "resolveMatch demo_env offline_match = Inl NetworkError"
  by code_simp+

lemma resolve_values_api:
  "resolveMatch_api demo_env_api gist_code_match = Inr (Some gist_code_result)"
  "resolveMatch_api demo_env_api gist_readme_match = Inr (Some gist_readme_result)"
  "resolveMatch_api demo_env_api offline_match = Inl NetworkError"
  by code_simp+

lemma zero_kept:
  "fetchMatch demo_env zero_match = Inr (Some zero_fetched)"
  "safeLinesRequested spec_helpers zero_fetched = []"
  by code_simp+

lemma result_lengths:
  "length (content code_result) < 2000"
  "length (content gist_code_result) < 2000"
  "content readme_result = header spec_helpers readme_fetched"
  "content gist_readme_result = header spec_helpers gist_readme_fetched"
  "attachment (hd (files readme_result)) = Buffer_from (js_join nl (linesRequested readme_fetched))"
  by code_simp+




text \<open>
  The match \<open>long_match\<close> is not evaluated character by character: the converter, the
  server and the URL parser are followed on a URL with any file name.
\<close>

lemma js_replace_absent: "c \<notin> set s \<Longrightarrow> js_replace s [c] r = s"
  by (induction s) (auto simp: startsWith_def)

lemma converter_Normal_blob:
  assumes "62 \<notin> set x"
  shows "converter_Normal (lit ''https://github.com/u/r/blob/main/'' @ x)
     = Inr (Some (lit ''https://raw.githubusercontent.com/u/r/main/'' @ x))"
proof -
  have "62 \<notin> set (lit ''https://github.com/u/r/blob/main/'' @ x)"
    using assms by (simp add: lit_def)
  then have "js_replace (lit ''https://github.com/u/r/blob/main/'' @ x) [62] []
      = lit ''https://github.com/u/r/blob/main/'' @ x"
    by (rule js_replace_absent)
  moreover have "lit ''>'' = [62]"
    by (simp add: lit_def)
  moreover have "js_replace (lit ''https://github.com/u/r/blob/main/'' @ x) (lit ''github.com'')
       (lit ''raw.githubusercontent.com'') = lit ''https://raw.githubusercontent.com/u/r/blob/main/'' @ x"
    by (simp add: lit_def startsWith_def)
  moreover have "strip_blob (lit ''https://raw.githubusercontent.com/u/r/blob/main/'' @ x)
     = lit ''https://raw.githubusercontent.com/u/r/main/'' @ x"
    by (simp add: lit_def startsWith_def)
  ultimately show ?thesis
    by (simp add: converter_Normal_def)
qed

lemma js_split_no_sep: "sep \<notin> set x \<Longrightarrow> js_split sep x = [x]"
  by (induction x) auto

lemma plain_host_github: "plain_host (lit ''github.com'')"
  by code_simp

lemma demo_pathname_blob:
  assumes "\<forall>c\<in>set x. plain_char c" "2 < length x"
  shows "demo_pathname (lit ''https://github.com/u/r/blob/main/'' @ x @ lit ''#L1-L2'')
     = Some (lit ''/u/r/blob/main/'' @ x)"
proof -
  have n: "47 \<notin> set x" "35 \<notin> set x" "63 \<notin> set x"
    using assms(1) by (auto simp: plain_char_def)
  have d: "x \<noteq> lit ''.''" "x \<noteq> lit ''..''"
    using assms(2) by (auto simp: lit_def)
  have t: "takeWhile (\<lambda>c. c \<noteq> 63 \<and> c \<noteq> 35) (x @ lit ''#L1-L2'') = x"
    using n by (auto simp: lit_def takeWhile_tail)
  have s: "js_split 47 (lit ''/u/r/blob/main/'' @ x)
      = [[], lit ''u'', lit ''r'', lit ''blob'', lit ''main'', x]"
    using n(1) by (simp add: lit_def js_split_no_sep)
  have a: "list_all (\<lambda>c. plain_char c \<or> c = 47) (lit ''/u/r/blob/main/'' @ x)"
    using assms(1) by (auto simp: lit_def list_all_iff) (simp_all add: plain_char_def)
  have b: "list_all (\<lambda>s. s \<noteq> lit ''.'' \<and> s \<noteq> lit ''..'')
      (js_split 47 (lit ''/u/r/blob/main/'' @ x))"
    unfolding s using d by (simp add: lit_def)
  have p: "plain_path (lit ''/u/r/blob/main/'' @ x)"
    unfolding plain_path_def using a b by (rule conjI)
  have h: "takeWhile (\<lambda>c. c \<noteq> 47 \<and> c \<noteq> 63 \<and> c \<noteq> 35)
      (drop 8 (lit ''https://github.com/u/r/blob/main/'' @ x @ lit ''#L1-L2'')) = lit ''github.com''"
    "dropWhile (\<lambda>c. c \<noteq> 47 \<and> c \<noteq> 63 \<and> c \<noteq> 35)
      (drop 8 (lit ''https://github.com/u/r/blob/main/'' @ x @ lit ''#L1-L2''))
      = lit ''/u/r/blob/main/'' @ x @ lit ''#L1-L2''"
    by (simp_all add: lit_def)
  have t': "takeWhile (\<lambda>c. c \<noteq> 63 \<and> c \<noteq> 35) (lit ''/u/r/blob/main/'' @ x @ lit ''#L1-L2'')
      = lit ''/u/r/blob/main/'' @ x"
    using t by (simp add: lit_def)
  have st: "startsWith (lit ''https://github.com/u/r/blob/main/'' @ x @ lit ''#L1-L2'')
      (lit ''https://'')"
    by (simp add: startsWith_def lit_def)
  have ne: "lit ''/u/r/blob/main/'' \<noteq> []"
    by (simp add: lit_def)
  show ?thesis
    unfolding demo_pathname_def Let_def h t'
    using st p plain_host_github ne by simp
qed

lemma demo_request_raw:
  "demo_request (lit ''https://raw.githubusercontent.com/u/r/main/'' @ x)
     = Inr \<lparr>statusCode = 200, body_text = demo_file\<rparr>"
  by (simp add: demo_request_def lit_def startsWith_def)

lemma demo_fetch_raw:
  "demo_fetch (lit ''https://raw.githubusercontent.com/u/r/main/'' @ x)
     = Inr \<lparr>status = 200, text_body = demo_file, json_body = None\<rparr>"
  by (simp add: demo_fetch_def lit_def startsWith_def)

lemma demo_file_lines: "js_split 10 demo_file \<noteq> []" "demo_file \<noteq> []"
  "safeLines \<lparr>startLine = 1, endLine = Some 2\<rparr> (js_split 10 demo_file) = (1, 2)"
  "spec_resolveLines (Some (lit ''L1-L2'')) = \<lparr>startLine = 1, endLine = Some 2\<rparr>"
  by code_simp+

lemma demo_file_lines_api:
  "safeLines_api \<lparr>startLine_api = Some 1, endLine_api = Some 2\<rparr> (js_split 10 demo_file) = (1, 2)"
  "spec_resolveLines_api (Some (lit ''L1-L2'')) = \<lparr>startLine_api = Some 1, endLine_api = Some 2\<rparr>"
  by code_simp+

lemma long_name_set: "set long_name = {97}" "length long_name = 2000"
  by (simp_all add: long_name_def)

lemma fetch_long_match: "fetchMatch demo_env long_match = Inr (Some long_fetched)"
proof -
  have c: "converter_Normal (lit ''https://github.com/u/r/blob/main/'' @ long_name @ lit ''#L1-L2'')
    = Inr (Some (lit ''https://raw.githubusercontent.com/u/r/main/'' @ long_name @ lit ''#L1-L2''))"
    by (rule converter_Normal_blob) (simp add: long_name_set lit_def)
  have p: "demo_pathname (lit ''https://github.com/u/r/blob/main/'' @ long_name @ lit ''#L1-L2'')
    = Some (lit ''/u/r/blob/main/'' @ long_name)"
    by (rule demo_pathname_blob) (simp_all add: long_name_set plain_char_def)
  have n: "lit ''#L1-L2'' \<noteq> []"
    by (simp add: lit_def)
  show ?thesis
    by (simp add: fetchMatch_def long_match_def normal_match_def demo_env_def c p n
        demo_request_raw falsy_def demo_file_lines long_fetched_def spec_helpers_def)
qed

lemma fetch_long_match_api: "fetchMatch_api demo_env_api long_match = Inr (Some long_fetched)"
proof -
  have c: "converter_Normal (lit ''https://github.com/u/r/blob/main/'' @ long_name @ lit ''#L1-L2'')
    = Inr (Some (lit ''https://raw.githubusercontent.com/u/r/main/'' @ long_name @ lit ''#L1-L2''))"
    by (rule converter_Normal_blob) (simp add: long_name_set lit_def)
  have p: "demo_pathname (lit ''https://github.com/u/r/blob/main/'' @ long_name @ lit ''#L1-L2'')
    = Some (lit ''/u/r/blob/main/'' @ long_name)"
    by (rule demo_pathname_blob) (simp_all add: long_name_set plain_char_def)
  have n: "lit ''#L1-L2'' \<noteq> []"
    by (simp add: lit_def)
  show ?thesis
    by (simp add: fetchMatch_api_def long_match_def normal_match_def demo_env_api_def c p n
        demo_fetch_raw rawFile_api_def fileContents_def lang_api_def path_api_def
        demo_file_lines demo_file_lines_api long_fetched_def spec_helpers_def)
qed

lemma first_two_lines:
  "linesRequested \<lparr>f_path = p, f_lang = l, f_start = 1, f_end = 2, f_lines = js_split 10 demo_file\<rparr>
     = [lit ''package main'', []]"
  by code_simp

lemma long_no_fence: "\<not> hasCodeBlock (linesRequested long_fetched)"
proof -
  have "\<not> hasCodeBlock [lit ''package main'', []]"
    by code_simp
  then show ?thesis
    by (simp add: long_fetched_def first_two_lines)
qed

lemma show_digits: "show_int 1 = lit ''1''" "show_int 2 = lit ''2''" "show_int 0 = lit ''0''"
  by code_simp+

lemma long_header:
  "header spec_helpers long_fetched = lit ''/u/r/blob/main/'' @ long_name @ lit '' L1-L2''"
  by (simp add: header_def spec_helpers_def spec_generateHeader_def long_fetched_def show_digits lit_def)

lemma long_header_length: "2000 < length (header spec_helpers long_fetched)"
  by (simp add: long_header long_name_set lit_def)

lemma spec_truncateArray_none: "n < 1 \<Longrightarrow> spec_truncateArray xs n = []"
  by (cases xs) simp_all

lemma long_kept: "safeLinesRequested spec_helpers long_fetched = []"
proof -
  have "2000 - (int (length (header spec_helpers long_fetched)) + SAFE_BOUNDARY
      + int (length (f_lang long_fetched))) < 1"
    using long_header_length by (simp add: SAFE_BOUNDARY_def)
  then show ?thesis
    by (simp add: safeLinesRequested_def spec_helpers_def spec_truncateArray_none header_def)
qed

lemma long_inline_header:
  "inlineHeader spec_helpers long_fetched
     = lit ''/u/r/blob/main/'' @ long_name @ lit '' L1-L0 (ellipsed)''"
  by (simp add: inlineHeader_def long_kept)
    (simp add: spec_helpers_def spec_generateHeader_def long_fetched_def first_two_lines
      show_digits lit_def)

lemma long_inline_length: "2000 \<le> length (inlineContent spec_helpers long_fetched)"
  by (simp add: inlineContent_shape long_inline_header long_name_set)

lemma resolve_long_match:
  "resolveGitHubResults demo_env [long_match] = Inr [asAttachment spec_helpers Normal long_fetched]"
proof -
  have "emitResult spec_helpers Normal long_fetched = asAttachment spec_helpers Normal long_fetched"
    using long_no_fence long_inline_length by (simp add: emitResult_def)
  moreover have "hs demo_env = spec_helpers" "type long_match = Normal"
    by (simp_all add: demo_env_def long_match_def normal_match_def)
  ultimately have "resolveMatch demo_env long_match
      = Inr (Some (asAttachment spec_helpers Normal long_fetched))"
    by (simp add: resolveMatch_def fetch_long_match)
  then show ?thesis by (rule resolve_single)
qed

section \<open>C1: the length of the content\<close>

text \<open>
  C1. Every result of \<open>resolveGitHubResults\<close> has a content of at most 2000 characters.
  As amended: the content of a result is either the inline text, which has fewer than
  2000 characters (and then there is no file), or the header alone (and then there is
  one file); nothing bounds the header, which is as long as \<open>generateHeader\<close> makes it.
  In both versions.
\<close>

theorem content_inline_or_header:
  "(resolveGitHubResults w ms = Inr rs \<longrightarrow>
      (\<forall>r\<in>set rs. (files r = [] \<and> length (content r) < 2000)
         \<or> (\<exists>m\<in>set ms. \<exists>f. fetchMatch w m = Inr (Some f)
               \<and> content r = header (hs w) f \<and> length (files r) = 1)))
   \<and> (resolveGitHubResults_api w' ms' = Inr rs' \<longrightarrow>
      (\<forall>r\<in>set rs'. (files r = [] \<and> length (content r) < 2000)
         \<or> (\<exists>m\<in>set ms'. \<exists>f. fetchMatch_api w' m = Inr (Some f)
               \<and> content r = header (hs_api w') f \<and> length (files r) = 1)))"
proof (intro conjI impI ballI)
  fix r
  assume "resolveGitHubResults w ms = Inr rs" "r \<in> set rs"
  then obtain m f where "m \<in> set ms" "fetchMatch w m = Inr (Some f)"
    "r = emitResult (hs w) (type m) f"
    using result_origin by blast
  then show "(files r = [] \<and> length (content r) < 2000)
         \<or> (\<exists>m\<in>set ms. \<exists>f. fetchMatch w m = Inr (Some f)
               \<and> content r = header (hs w) f \<and> length (files r) = 1)"
    using emitResult_length [of "hs w" "type m" f] by blast
next
  fix r
  assume "resolveGitHubResults_api w' ms' = Inr rs'" "r \<in> set rs'"
  then obtain m f where "m \<in> set ms'" "fetchMatch_api w' m = Inr (Some f)"
    "r = emitResult (hs_api w') (type m) f"
    using result_origin_api by blast
  then show "(files r = [] \<and> length (content r) < 2000)
         \<or> (\<exists>m\<in>set ms'. \<exists>f. fetchMatch_api w' m = Inr (Some f)
               \<and> content r = header (hs_api w') f \<and> length (files r) = 1)"
    using emitResult_length [of "hs_api w'" "type m" f] by blast
qed

theorem content_inline_or_header_witness:
  "resolveGitHubResults demo_env [gone_match, code_match, readme_match]
     = Inr [code_result, readme_result]
   \<and> resolveGitHubResults_api demo_env_api [gist_code_match, gist_readme_match]
     = Inr [gist_code_result, gist_readme_result]
   \<and> length (content code_result) < 2000
   \<and> content readme_result = header spec_helpers readme_fetched
   \<and> length (content gist_code_result) < 2000
   \<and> content gist_readme_result = header spec_helpers gist_readme_fetched"
proof -
  have a: "resolveGitHubResults demo_env [gone_match, code_match, readme_match]
     = Inr [code_result, readme_result]"
    by (simp add: resolveGitHubResults_def resolve_values)
  have b: "resolveGitHubResults_api demo_env_api [gist_code_match, gist_readme_match]
     = Inr [gist_code_result, gist_readme_result]"
    by (simp add: resolveGitHubResults_api_def resolve_values_api)
  show ?thesis
    using content_inline_or_header [of demo_env "[gone_match, code_match, readme_match]"
        "[code_result, readme_result]" demo_env_api "[gist_code_match, gist_readme_match]"
        "[gist_code_result, gist_readme_result]"] a b result_lengths
    by simp
qed

text \<open>
  With the header of the specification, which holds the path, a link to a file whose
  name has 2000 characters gives a content of more than 2000 characters.
\<close>

theorem header_longer_than_2000:
  "resolveGitHubResults demo_env [long_match] = Inr [asAttachment spec_helpers Normal long_fetched]
   \<and> content (asAttachment spec_helpers Normal long_fetched) = header spec_helpers long_fetched
   \<and> 2000 < length (content (asAttachment spec_helpers Normal long_fetched))"
  using resolve_long_match long_header_length by (simp add: asAttachment_def)

section \<open>C2: a slice with a code fence\<close>

text \<open>
  C2. For every successfully fetched match whose sliced lines have a triple backtick in
  at least one line, \<open>resolveGitHubResults\<close> emits a result whose content is exactly the
  header and whose files are exactly one attachment, holding the sliced lines joined
  with newlines and not truncated, whatever the size of the slice. A match is
  successfully fetched when the first half of its turn ends with a file in hand
  (\<open>fetchMatch w m = Inr (Some f)\<close>, spelled out in \<open>fetchMatch_Some_iff\<close>); the
  result is then the only result of the call for that match alone, and one of the
  results of any call that returns. In both versions.
\<close>

theorem code_fence_gives_attachment:
  "content (asAttachment h ty f) = header h f
   \<and> files (asAttachment h ty f)
       = [\<lparr>attachment = Buffer_from (js_join nl (linesRequested f)),
           name = (if ty = Gist then f_path f @ lit ''.'' @ f_lang f else f_path f)\<rparr>]
   \<and> (fetchMatch w m = Inr (Some f) \<and> hasCodeBlock (linesRequested f) \<longrightarrow>
        resolveGitHubResults w [m] = Inr [asAttachment (hs w) (type m) f]
        \<and> (\<forall>ms rs. m \<in> set ms \<and> resolveGitHubResults w ms = Inr rs \<longrightarrow>
              asAttachment (hs w) (type m) f \<in> set rs))
   \<and> (fetchMatch_api w' m' = Inr (Some f') \<and> hasCodeBlock (linesRequested f') \<longrightarrow>
        resolveGitHubResults_api w' [m'] = Inr [asAttachment (hs_api w') (type m') f']
        \<and> (\<forall>ms rs. m' \<in> set ms \<and> resolveGitHubResults_api w' ms = Inr rs \<longrightarrow>
              asAttachment (hs_api w') (type m') f' \<in> set rs))"
proof (intro conjI impI allI)
  show "content (asAttachment h ty f) = header h f"
    by (simp add: asAttachment_def)
  show "files (asAttachment h ty f)
       = [\<lparr>attachment = Buffer_from (js_join nl (linesRequested f)),
           name = (if ty = Gist then f_path f @ lit ''.'' @ f_lang f else f_path f)\<rparr>]"
    by (simp add: asAttachment_def)
next
  assume a: "fetchMatch w m = Inr (Some f) \<and> hasCodeBlock (linesRequested f)"
  then have r: "resolveMatch w m = Inr (Some (asAttachment (hs w) (type m) f))"
    by (simp add: fence_attachment)
  then show "resolveGitHubResults w [m] = Inr [asAttachment (hs w) (type m) f]"
    by (rule resolve_single)
  fix ms rs
  assume "m \<in> set ms \<and> resolveGitHubResults w ms = Inr rs"
  then show "asAttachment (hs w) (type m) f \<in> set rs"
    using r resolveLoop_emits [of "resolveMatch w" ms rs m]
    by (simp add: resolveGitHubResults_def)
next
  assume a: "fetchMatch_api w' m' = Inr (Some f') \<and> hasCodeBlock (linesRequested f')"
  then have r: "resolveMatch_api w' m' = Inr (Some (asAttachment (hs_api w') (type m') f'))"
    by (simp add: fence_attachment_api)
  then show "resolveGitHubResults_api w' [m'] = Inr [asAttachment (hs_api w') (type m') f']"
    by (rule resolve_single_api)
  fix ms rs
  assume "m' \<in> set ms \<and> resolveGitHubResults_api w' ms = Inr rs"
  then show "asAttachment (hs_api w') (type m') f' \<in> set rs"
    using r resolveLoop_emits [of "resolveMatch_api w'" ms rs m']
    by (simp add: resolveGitHubResults_api_def)
qed

theorem code_fence_gives_attachment_witness:
  "resolveGitHubResults demo_env [readme_match]
     = Inr [\<lparr>content = lit ''/u/docs/blob/main/README.md L1-L4'',
              files = [\<lparr>attachment = Buffer_from demo_readme,
                        name = lit ''/u/docs/blob/main/README.md''\<rparr>]\<rparr>]
   \<and> resolveGitHubResults_api demo_env_api [gist_readme_match]
     = Inr [\<lparr>content = lit ''/u/abc#file-README-md L1-L4'',
              files = [\<lparr>attachment = Buffer_from demo_readme,
                        name = lit ''/u/abc#file-README-md.md''\<rparr>]\<rparr>]"
proof -
  have t: "type readme_match = Normal" "type gist_readme_match = Gist"
    by (simp_all add: match_defs)
  have h: "hs demo_env = spec_helpers" "hs_api demo_env_api = spec_helpers"
    by (simp_all add: demo_env_def demo_env_api_def)
  have f: "hasCodeBlock (linesRequested readme_fetched)"
    "hasCodeBlock (linesRequested gist_readme_fetched)"
    by (simp_all add: readme_fetched_def gist_readme_fetched_def readme_fence)
  show ?thesis
    using code_fence_gives_attachment [of spec_helpers Normal readme_fetched demo_env
        readme_match demo_env_api gist_readme_match gist_readme_fetched] fetch_readme_match fetch_gist_readme_match f
      readme_attachment gist_readme_attachment
    by (simp add: t h readme_fetched_def gist_readme_fetched_def)
qed

section \<open>C3: a URL that occurs twice\<close>

lemma new_Set_acc:
  "distinct (map fst (acc @ xs)) \<Longrightarrow>
   foldl (\<lambda>s x. if fst x \<in> fst ` set s then s else s @ [x]) acc xs = acc @ xs"
proof (induction xs arbitrary: acc)
  case Nil
  show ?case by simp
next
  case (Cons x xs)
  from Cons.prems have "fst x \<notin> fst ` set acc" by auto
  moreover from Cons.prems have "distinct (map fst ((acc @ [x]) @ xs))" by simp
  ultimately show ?case using Cons.IH [of "acc @ [x]"] by simp
qed

lemma new_Set_matchAll: "new_Set (matchAll URL_REGEX t) = matchAll URL_REGEX t"
proof -
  have "map fst (matchAll URL_REGEX t) = [0..<length (URL_REGEX t)]"
    by (simp add: matchAll_def Let_def)
  then have "distinct (map fst ([] @ matchAll URL_REGEX t))" by simp
  from new_Set_acc [OF this] show ?thesis by (simp add: new_Set_def)
qed

lemma classify_match:
  assumes "find (\<lambda>v. v_regex v u \<noteq> None) vs = Some v" "v_regex v u = Some rm" "m_whole rm \<noteq> []"
  shows "classify vs (a, u)
    = Inr (Some \<lparr>converter = v_converter v, opts = g_opts (m_groups rm), regex = v_regex v,
                  type = v_type v, url = m_whole rm\<rparr>)"
  using assms by (simp add: classify_def)

lemma classify_returns: "\<exists>r. classify vs m = Inr r"
proof (cases "find (\<lambda>v. v_regex v (snd m) \<noteq> None) vs")
  case None
  then show ?thesis by (simp add: classify_def)
next
  case (Some v)
  then have "v_regex v (snd m) \<noteq> None"
    by (auto simp: find_Some_iff)
  with Some show ?thesis
    by (auto simp: classify_def)
qed

lemma sequence_returns: "\<forall>x\<in>set xs. \<exists>r. x = Inr r \<Longrightarrow> \<exists>rs. sequence xs = Inr rs"
  by (induction xs) auto

lemma matchGitHubUrls_returns: "\<exists>ms. matchGitHubUrls URL_REGEX vs t = Inr ms"
proof -
  have "\<exists>rs. sequence (map (classify vs) (new_Set (matchAll URL_REGEX t))) = Inr rs"
    by (rule sequence_returns) (simp add: classify_returns)
  then show ?thesis
    by (auto simp: matchGitHubUrls_def Let_def)
qed

text \<open>
  C3. For every text in which the same URL occurs more than once, \<open>matchGitHubUrls\<close>
  returns exactly one match for that URL. The code does not: the set is built from the
  arrays that \<open>matchAll\<close> yields, one new object per occurrence, so the set keeps them
  all (\<open>new_Set_matchAll\<close>), and a URL found twice and classified by a validator gives
  two equal matches.
\<close>

theorem matchGitHubUrls_keeps_duplicates:
  assumes "URL_REGEX t = [u, u]"
    and "find (\<lambda>v. v_regex v u \<noteq> None) vs = Some v"
    and "v_regex v u = Some rm"
    and "m_whole rm \<noteq> []"
  shows "matchGitHubUrls URL_REGEX vs t
    = Inr [\<lparr>converter = v_converter v, opts = g_opts (m_groups rm), regex = v_regex v,
             type = v_type v, url = m_whole rm\<rparr>,
           \<lparr>converter = v_converter v, opts = g_opts (m_groups rm), regex = v_regex v,
             type = v_type v, url = m_whole rm\<rparr>]"
proof -
  have "matchAll URL_REGEX t = [(0, u), (1, u)]"
    using assms(1) by (simp add: matchAll_def upt_rec)
  with new_Set_matchAll [of URL_REGEX t]
  have "new_Set (matchAll URL_REGEX t) = [(0, u), (1, u)]"
    by simp
  then show ?thesis
    by (simp add: matchGitHubUrls_def classify_match [OF assms(2-4)] filter_Boolean_def)
qed

theorem matchGitHubUrls_keeps_duplicates_witness:
  "matchGitHubUrls spec_URL_REGEX demo_validators
     (lit ''https://github.com/u/r/blob/main/f.go#L3-L4 https://github.com/u/r/blob/main/f.go#L3-L4'')
   = Inr [code_match, code_match]"
proof -
  let ?u = "lit ''https://github.com/u/r/blob/main/f.go#L3-L4''"
  let ?v = "\<lparr>v_type = Normal, v_regex = spec_NormalGitHubUrlRegex, v_converter = converter_Normal\<rparr>"
  have f: "find (\<lambda>v. v_regex v ?u \<noteq> None) demo_validators = Some ?v"
    by (simp add: demo_validators_def validators_def code_link_Normal)
  have r: "v_regex ?v ?u = Some \<lparr>m_whole = ?u,
             m_groups = \<lparr>g_user = None, g_id = None, g_opts = Some (lit ''L3-L4'')\<rparr>\<rparr>"
    by (simp add: code_link_Normal)
  have n: "m_whole \<lparr>m_whole = ?u,
             m_groups = \<lparr>g_user = None, g_id = None, g_opts = Some (lit ''L3-L4'')\<rparr>\<rparr> \<noteq> []"
    by (simp add: lit_def)
  show ?thesis
    using matchGitHubUrls_keeps_duplicates [of spec_URL_REGEX _ ?u demo_validators ?v, OF two_links f r n]
    by (simp add: code_match_def normal_match_def)
qed

section \<open>C4: a range beyond the file\<close>

text \<open>
  C4. For every fetched file of \<open>n\<close> lines and every parsed range, the effective start
  and end lines never exceed \<open>n\<close>: lines 1 to 1000000 of a file of 50 lines are the lines
  1 to 50, which is the whole file; and a range never causes an error or a dropped
  match: for a match that is fetched under one resolution of its range, any other
  resolution \<open>g\<close> of the range gives a result too, that of the range clamped to the file.
  In both versions.
\<close>

theorem out_of_bounds_clamped:
  "fst (safeLines r pl) \<le> int (length pl) \<and> snd (safeLines r pl) \<le> int (length pl)
   \<and> fst (safeLines_api r' pl) \<le> int (length pl) \<and> snd (safeLines_api r' pl) \<le> int (length pl)
   \<and> (length pl = 50 \<longrightarrow>
        safeLines \<lparr>startLine = 1, endLine = Some 1000000\<rparr> pl = (1, 50)
        \<and> safeLines_api \<lparr>startLine_api = Some 1, endLine_api = Some 1000000\<rparr> pl = (1, 50)
        \<and> linesRequested \<lparr>f_path = p, f_lang = l, f_start = 1, f_end = 50, f_lines = pl\<rparr> = pl)
   \<and> (fetchMatch w m = Inr (Some f) \<longrightarrow>
        resolveMatch (w\<lparr>resolveLines := g\<rparr>) m
          = Inr (Some (emitResult (hs w) (type m)
              (f\<lparr>f_start := fst (safeLines (g (opts m)) (f_lines f)),
                 f_end := snd (safeLines (g (opts m)) (f_lines f))\<rparr>))))
   \<and> (fetchMatch_api w' m' = Inr (Some f') \<longrightarrow>
        resolveMatch_api (w'\<lparr>resolveLines_api := g'\<rparr>) m'
          = Inr (Some (emitResult (hs_api w') (type m')
              (f'\<lparr>f_start := fst (safeLines_api (g' (opts m')) (f_lines f')),
                  f_end := snd (safeLines_api (g' (opts m')) (f_lines f'))\<rparr>))))"
  using safeLines_le [of r pl] safeLines_api_le [of r' pl]
    fifty(1) [of pl] fifty(2) [of pl] fifty(3) [of pl p l]
    any_range [of w m f g] any_range_api [of w' m' f' g']
  by blast

theorem out_of_bounds_clamped_witness:
  "length fifty_lines = 50
   \<and> safeLines \<lparr>startLine = 1, endLine = Some 1000000\<rparr> fifty_lines = (1, 50)
   \<and> linesRequested \<lparr>f_path = [], f_lang = [], f_start = 1, f_end = 50, f_lines = fifty_lines\<rparr>
       = fifty_lines
   \<and> fetchMatch demo_env huge_match = Inr (Some huge_fetched)
   \<and> resolveMatch demo_env huge_match
       = Inr (Some (emitResult spec_helpers Normal huge_fetched))
   \<and> fetchMatch_api demo_env_api gist_code_match = Inr (Some gist_code_fetched)
   \<and> resolveMatch_api demo_env_api gist_code_match
       = Inr (Some (emitResult spec_helpers Gist gist_code_fetched))"
proof -
  have l: "length fifty_lines = 50"
    by (simp add: fifty_lines_def)
  have a: "fetchMatch demo_env huge_match = Inr (Some huge_fetched)"
    using fetch_huge_match by (simp add: huge_fetched_def)
  have b: "fetchMatch_api demo_env_api gist_code_match = Inr (Some gist_code_fetched)"
    using fetch_gist_code_match by (simp add: gist_code_fetched_def)
  have w: "demo_env\<lparr>resolveLines := spec_resolveLines\<rparr> = demo_env"
    "demo_env_api\<lparr>resolveLines_api := spec_resolveLines_api\<rparr> = demo_env_api"
    by (simp_all add: demo_env_def demo_env_api_def)
  have s: "safeLines \<lparr>startLine = 1, endLine = Some 1000000\<rparr> (js_split 10 demo_file) = (1, 5)"
    "safeLines_api \<lparr>startLine_api = Some 3, endLine_api = Some 4\<rparr> (js_split 10 demo_file) = (3, 4)"
    by (simp_all add: safeLines_def safeLines_api_def demo_lines or_else_def)
  have t: "type huge_match = Normal" "type gist_code_match = Gist"
    "hs demo_env = spec_helpers" "hs_api demo_env_api = spec_helpers"
    by (simp_all add: match_defs demo_env_def demo_env_api_def)
  show ?thesis
    using out_of_bounds_clamped [of _ fifty_lines _ "[]" "[]" demo_env huge_match huge_fetched
        spec_resolveLines demo_env_api gist_code_match gist_code_fetched spec_resolveLines_api]
      l a b
    by (simp add: w huge_lines s t huge_fetched_def gist_code_fetched_def)
qed

section \<open>C5: no end line\<close>

text \<open>
  C5. When the end line is absent, the effective end line is the start line (a request
  for one line), except when the start line is absent or zero: then the slice is the
  whole file. The second version does this (\<open>safeLines_api_single\<close>,
  \<open>safeLines_api_whole\<close>). \<open>handler.ts\<close> has the first half (\<open>safeLines_single\<close>) and not
  the second: for a start line of zero the effective range is 0 to 0, and the slice
  \<open>parsedLines.slice(-1, 0)\<close> is empty for every file; the rendered text shows the
  placeholder.
\<close>

theorem handler_zero_start_line:
  "safeLines \<lparr>startLine = 0, endLine = None\<rparr> pl = (0, 0)
   \<and> linesRequested \<lparr>f_path = p, f_lang = l, f_start = 0, f_end = 0, f_lines = pl\<rparr> = []
   \<and> resolveGitHubResults demo_env [zero_match]
       = Inr [\<lparr>content = js_join nl (map lit [''/u/r/blob/main/f.go L0-L-1'', ''```go'',
                  ''Couldn't find any lines'', ''```'']), files = []\<rparr>]"
proof -
  have "safeLines \<lparr>startLine = 0, endLine = None\<rparr> pl = (0, 0)"
    by (simp add: safeLines_def)
  moreover have "linesRequested \<lparr>f_path = p, f_lang = l, f_start = 0, f_end = 0, f_lines = pl\<rparr> = []"
    by (simp add: linesRequested_def js_slice_def)
  ultimately show ?thesis
    using resolve_zero_match by simp
qed

section \<open>C6: an inline text that is too long\<close>

text \<open>
  C6. For every match without a code fence whose inline content has 2000 characters or
  more, the result is the attachment form (one attachment with the whole raw slice), and
  the end line shown in the header is the number of the last line kept after truncation.
  As amended: the result is the attachment form, and its content is the first header,
  made from the effective start line and the effective (requested, clamped) end line,
  not marked as ellipsed: the header that goes with the whole slice in the attachment.
  In both versions.
\<close>

theorem oversized_gives_attachment:
  "content (asAttachment h ty f)
     = generateHeader h \<lparr>h_startLine = f_start f, h_endLine = f_end f, h_path = f_path f,
                          h_ellipsed = None\<rparr>
   \<and> files (asAttachment h ty f)
       = [\<lparr>attachment = Buffer_from (js_join nl (linesRequested f)),
           name = (if ty = Gist then f_path f @ lit ''.'' @ f_lang f else f_path f)\<rparr>]
   \<and> (fetchMatch w m = Inr (Some f) \<and> \<not> hasCodeBlock (linesRequested f)
        \<and> 2000 \<le> length (inlineContent (hs w) f) \<longrightarrow>
        f_end f = snd (safeLines (resolveLines w (opts m)) (f_lines f))
        \<and> resolveGitHubResults w [m] = Inr [asAttachment (hs w) (type m) f]
        \<and> (\<forall>ms rs. m \<in> set ms \<and> resolveGitHubResults w ms = Inr rs \<longrightarrow>
              asAttachment (hs w) (type m) f \<in> set rs))
   \<and> (fetchMatch_api w' m' = Inr (Some f') \<and> \<not> hasCodeBlock (linesRequested f')
        \<and> 2000 \<le> length (inlineContent (hs_api w') f') \<longrightarrow>
        f_end f' = snd (safeLines_api (resolveLines_api w' (opts m')) (f_lines f'))
        \<and> resolveGitHubResults_api w' [m'] = Inr [asAttachment (hs_api w') (type m') f']
        \<and> (\<forall>ms rs. m' \<in> set ms \<and> resolveGitHubResults_api w' ms = Inr rs \<longrightarrow>
              asAttachment (hs_api w') (type m') f' \<in> set rs))"
proof (intro conjI impI allI)
  show "content (asAttachment h ty f)
     = generateHeader h \<lparr>h_startLine = f_start f, h_endLine = f_end f, h_path = f_path f,
                          h_ellipsed = None\<rparr>"
    by (simp add: asAttachment_def header_def)
  show "files (asAttachment h ty f)
       = [\<lparr>attachment = Buffer_from (js_join nl (linesRequested f)),
           name = (if ty = Gist then f_path f @ lit ''.'' @ f_lang f else f_path f)\<rparr>]"
    by (simp add: asAttachment_def)
next
  assume a: "fetchMatch w m = Inr (Some f) \<and> \<not> hasCodeBlock (linesRequested f)
        \<and> 2000 \<le> length (inlineContent (hs w) f)"
  then have r: "resolveMatch w m = Inr (Some (asAttachment (hs w) (type m) f))"
    by (simp add: oversized_attachment)
  from a fetched_range [of w m f]
  show "f_end f = snd (safeLines (resolveLines w (opts m)) (f_lines f))"
    by (auto simp: prod_eq_iff)
  from r show "resolveGitHubResults w [m] = Inr [asAttachment (hs w) (type m) f]"
    by (rule resolve_single)
  fix ms rs
  assume "m \<in> set ms \<and> resolveGitHubResults w ms = Inr rs"
  then show "asAttachment (hs w) (type m) f \<in> set rs"
    using r resolveLoop_emits [of "resolveMatch w" ms rs m]
    by (simp add: resolveGitHubResults_def)
next
  assume a: "fetchMatch_api w' m' = Inr (Some f') \<and> \<not> hasCodeBlock (linesRequested f')
        \<and> 2000 \<le> length (inlineContent (hs_api w') f')"
  then have r: "resolveMatch_api w' m' = Inr (Some (asAttachment (hs_api w') (type m') f'))"
    by (simp add: oversized_attachment_api)
  from a fetched_range_api [of w' m' f']
  show "f_end f' = snd (safeLines_api (resolveLines_api w' (opts m')) (f_lines f'))"
    by (auto simp: prod_eq_iff)
  from r show "resolveGitHubResults_api w' [m'] = Inr [asAttachment (hs_api w') (type m') f']"
    by (rule resolve_single_api)
  fix ms rs
  assume "m' \<in> set ms \<and> resolveGitHubResults_api w' ms = Inr rs"
  then show "asAttachment (hs_api w') (type m') f' \<in> set rs"
    using r resolveLoop_emits [of "resolveMatch_api w'" ms rs m']
    by (simp add: resolveGitHubResults_api_def)
qed

theorem oversized_gives_attachment_witness:
  "fetchMatch demo_env long_match = Inr (Some long_fetched)
   \<and> fetchMatch_api demo_env_api long_match = Inr (Some long_fetched)
   \<and> \<not> hasCodeBlock (linesRequested long_fetched)
   \<and> 2000 \<le> length (inlineContent spec_helpers long_fetched)
   \<and> f_end long_fetched = 2
   \<and> resolveGitHubResults demo_env [long_match]
       = Inr [asAttachment spec_helpers Normal long_fetched]
   \<and> resolveGitHubResults_api demo_env_api [long_match]
       = Inr [asAttachment spec_helpers Normal long_fetched]
   \<and> content (asAttachment spec_helpers Normal long_fetched)
       = lit ''/u/r/blob/main/'' @ long_name @ lit '' L1-L2''"
proof -
  have t: "hs demo_env = spec_helpers" "hs_api demo_env_api = spec_helpers"
    "type long_match = Normal"
    by (simp_all add: demo_env_def demo_env_api_def long_match_def normal_match_def)
  have e: "f_end long_fetched = 2"
    by (simp add: long_fetched_def)
  show ?thesis
    using oversized_gives_attachment [of spec_helpers Normal long_fetched demo_env long_match
        demo_env_api long_match long_fetched]
      fetch_long_match fetch_long_match_api long_no_fence long_inline_length long_header e
    by (simp add: t asAttachment_def)
qed

text \<open>
  With the helpers of the specification: two lines are requested, none is kept, the
  inline header would show the lines 1 to 0, and the content pushed shows 1 to 2.
\<close>

theorem fallback_header_keeps_requested_end:
  "fetchMatch demo_env long_match = Inr (Some long_fetched)
   \<and> \<not> hasCodeBlock (linesRequested long_fetched)
   \<and> 2000 \<le> length (inlineContent spec_helpers long_fetched)
   \<and> length (linesRequested long_fetched) = 2
   \<and> length (safeLinesRequested spec_helpers long_fetched) = 0
   \<and> resolveGitHubResults demo_env [long_match]
       = Inr [asAttachment spec_helpers Normal long_fetched]
   \<and> content (asAttachment spec_helpers Normal long_fetched)
       = lit ''/u/r/blob/main/'' @ long_name @ lit '' L1-L2''
   \<and> inlineHeader spec_helpers long_fetched
       = lit ''/u/r/blob/main/'' @ long_name @ lit '' L1-L0 (ellipsed)''
   \<and> content (asAttachment spec_helpers Normal long_fetched)
       \<noteq> inlineHeader spec_helpers long_fetched"
proof -
  have "lit '' L1-L2'' \<noteq> lit '' L1-L0 (ellipsed)''"
    by (simp add: lit_def)
  then show ?thesis
    using fetch_long_match long_no_fence long_inline_length resolve_long_match long_header
      long_inline_header long_kept
    by (simp add: asAttachment_def long_fetched_def first_two_lines)
qed

section \<open>C7: the Normal converter\<close>

text \<open>
  The converter does what is expected of it on the example of the specification, and on
  every link in which neither the user nor the repository begins with \<open>blob\<close> or
  \<open>blame\<close>.
\<close>

lemma converter_Normal_example:
  "converter_Normal (lit ''https://github.com/u/r/blob/main/f.go#L5-L10'')
     = Inr (Some (lit ''https://raw.githubusercontent.com/u/r/main/f.go#L5-L10''))"
  by (simp add: converter_Normal_def lit_def startsWith_def)

lemma strip_blob_skip: "47 \<notin> set s \<Longrightarrow> strip_blob (s @ t) = s @ strip_blob t"
  by (induction s) (auto simp: startsWith_def lit_def)

lemma startsWith_append_short:
  assumes "startsWith (a @ c # b) p" "c \<notin> set p"
  shows "startsWith a p"
proof -
  from assms(1) have e: "take (length p) (a @ c # b) = p"
    by (simp add: startsWith_def)
  have "length p \<le> length a"
  proof (rule ccontr)
    assume "\<not> length p \<le> length a"
    then have "take (length p) (a @ c # b) = a @ c # take (length p - length a - 1) b"
      by (simp add: take_Cons')
    with e have "c \<in> set p"
      by (metis in_set_conv_decomp)
    with assms(2) show False by simp
  qed
  with e show ?thesis
    by (simp add: startsWith_def)
qed

lemma strip_blob_segment:
  assumes "47 \<notin> set s" "\<not> startsWith s (lit ''blob'')" "\<not> startsWith s (lit ''blame'')"
  shows "strip_blob (47 # s @ 47 # t) = 47 # s @ strip_blob (47 # t)"
proof -
  have "\<not> startsWith (s @ 47 # t) (lit ''blob'')" "\<not> startsWith (s @ 47 # t) (lit ''blame'')"
    using assms(2,3) startsWith_append_short [of s 47 t]
    by (auto simp: lit_def)
  then have "\<not> startsWith (47 # s @ 47 # t) (lit ''/blob'')"
    "\<not> startsWith (47 # s @ 47 # t) (lit ''/blame'')"
    by (simp_all add: startsWith_def lit_def)
  then have "strip_blob (47 # s @ 47 # t) = 47 # strip_blob (s @ 47 # t)"
    by simp
  with assms(1) show ?thesis
    by (simp add: strip_blob_skip)
qed

lemma converter_Normal_blob_link:
  assumes "62 \<notin> set user" "62 \<notin> set repo" "62 \<notin> set rest"
    and "47 \<notin> set user" "47 \<notin> set repo"
    and "\<not> startsWith user (lit ''blob'')" "\<not> startsWith user (lit ''blame'')"
    and "\<not> startsWith repo (lit ''blob'')" "\<not> startsWith repo (lit ''blame'')"
  shows "converter_Normal
           (lit ''https://github.com/'' @ user @ lit ''/'' @ repo @ lit ''/blob/'' @ rest)
     = Inr (Some (lit ''https://raw.githubusercontent.com/'' @ user @ lit ''/'' @ repo
                    @ lit ''/'' @ rest))"
proof -
  let ?u = "lit ''https://github.com/'' @ user @ lit ''/'' @ repo @ lit ''/blob/'' @ rest"
  have "62 \<notin> set ?u"
    using assms(1-3) by (simp add: lit_def)
  then have a: "js_replace ?u (lit ''>'') [] = ?u"
    using js_replace_absent [of 62 ?u "[]"] by (simp add: lit_def)
  have b: "js_replace ?u (lit ''github.com'') (lit ''raw.githubusercontent.com'')
      = lit ''https://raw.githubusercontent.com'' @ 47 # user @ 47 # repo @ 47 # lit ''blob/'' @ rest"
    by (simp add: lit_def startsWith_def)
  have c: "strip_blob (lit ''https://raw.githubusercontent.com'' @ x)
      = lit ''https://raw.githubusercontent.com'' @ strip_blob x" for x
    by (simp add: lit_def startsWith_def)
  have d: "strip_blob (47 # lit ''blob/'' @ rest) = 47 # rest"
    by (simp add: lit_def startsWith_def)
  have "strip_blob (47 # user @ 47 # repo @ 47 # lit ''blob/'' @ rest)
      = 47 # user @ 47 # repo @ 47 # rest"
    using strip_blob_segment [OF assms(4,6,7), of "repo @ 47 # lit ''blob/'' @ rest"]
      strip_blob_segment [OF assms(5,8,9), of "lit ''blob/'' @ rest"] d
    by simp
  with a b c show ?thesis
    by (simp add: converter_Normal_def) (simp add: lit_def)
qed

text \<open>
  C7. For every URL of the Normal shape with \<open>/blob/\<close> in its path, the converter gives
  the URL on the raw-content host with the \<open>/blob/\<close> segment removed. The pattern of the
  converter is \<open>/blob\<close> or \<open>/blame\<close> with nothing after it, and the leftmost match is
  removed: for a user (or repository) whose name begins with \<open>blob\<close>, the start of the
  name goes, with the \<open>/\<close> before it, and the \<open>/blob/\<close> segment stays. Here the result no
  longer has the raw-content host.
\<close>

theorem converter_Normal_blob_prefix:
  "converter_Normal (lit ''https://github.com/blobtoolkit/blobtoolkit/blob/main/README.md#L1-L5'')
     = Inr (Some (lit
         ''https://raw.githubusercontent.comtoolkit/blobtoolkit/blob/main/README.md#L1-L5''))"
  by (simp add: converter_Normal_def lit_def startsWith_def)

section \<open>C8: a Gist URL with a missing part\<close>



lemma converter_Gist_api_url:
  assumes "rx (strip_line_markers u) = Some rm"
    and "g_id (m_groups rm) = Some i" "i \<noteq> []" "g_opts (m_groups rm) = Some q" "q \<noteq> []"
  shows "converter_Gist_api rx u = Inr (Some (lit ''https://api.github.com/gists/'' @ i))"
  using assms by (simp add: converter_Gist_api_def)



section \<open>C9: the order of the results\<close>

text \<open>
  C9. For every list of matches, \<open>resolveGitHubResults\<close> emits at most one result per
  match and exactly one per resolved match, in the order of the matches, and a match
  that fails is left out without any effect on the others. As amended: this holds when
  no turn of the loop throws; the matches left out are those whose turn ends in
  \<open>continue\<close>. When a turn throws (a rejected request, a URL that cannot be parsed),
  nothing catches the exception and the call returns no results at all. In both
  versions.
\<close>

theorem results_in_order:
  "((\<forall>m\<in>set ms. \<forall>e. resolveMatch w m \<noteq> Inl e) \<longrightarrow>
      resolveGitHubResults w ms
        = Inr (concat (map (\<lambda>m. case resolveMatch w m of Inr (Some r) \<Rightarrow> [r] | _ \<Rightarrow> []) ms)))
   \<and> ((\<exists>m\<in>set ms. \<exists>e. resolveMatch w m = Inl e) \<longrightarrow> (\<exists>e. resolveGitHubResults w ms = Inl e))
   \<and> ((\<forall>m\<in>set ms'. \<forall>e. resolveMatch_api w' m \<noteq> Inl e) \<longrightarrow>
      resolveGitHubResults_api w' ms'
        = Inr (concat (map (\<lambda>m. case resolveMatch_api w' m of Inr (Some r) \<Rightarrow> [r] | _ \<Rightarrow> [])
            ms')))
   \<and> ((\<exists>m\<in>set ms'. \<exists>e. resolveMatch_api w' m = Inl e) \<longrightarrow>
        (\<exists>e. resolveGitHubResults_api w' ms' = Inl e))"
  unfolding resolveGitHubResults_def resolveGitHubResults_api_def
  using results_no_throw [of ms "resolveMatch w"] results_throw [of ms "resolveMatch w"]
    results_no_throw [of ms' "resolveMatch_api w'"] results_throw [of ms' "resolveMatch_api w'"]
  by blast

theorem results_in_order_witness:
  "resolveGitHubResults demo_env [gone_match, code_match, readme_match]
     = Inr [code_result, readme_result]
   \<and> resolveGitHubResults demo_env [code_match, offline_match] = Inl NetworkError
   \<and> resolveGitHubResults_api demo_env_api [gist_code_match, gist_readme_match]
     = Inr [gist_code_result, gist_readme_result]
   \<and> resolveGitHubResults_api demo_env_api [gist_code_match, offline_match] = Inl NetworkError"
proof -
  have a: "\<forall>m\<in>set [gone_match, code_match, readme_match]. \<forall>e. resolveMatch demo_env m \<noteq> Inl e"
    by (simp add: resolve_values)
  have b: "\<forall>m\<in>set [gist_code_match, gist_readme_match]. \<forall>e. resolveMatch_api demo_env_api m \<noteq> Inl e"
    by (simp add: resolve_values_api)
  have c: "\<exists>m\<in>set [code_match, offline_match]. \<exists>e. resolveMatch demo_env m = Inl e"
    by (simp add: resolve_values)
  have d: "\<exists>m\<in>set [gist_code_match, offline_match]. \<exists>e. resolveMatch_api demo_env_api m = Inl e"
    by (simp add: resolve_values_api)
  have "resolveGitHubResults demo_env [code_match, offline_match] = Inl NetworkError"
    "resolveGitHubResults_api demo_env_api [gist_code_match, offline_match] = Inl NetworkError"
    by (simp_all add: resolveGitHubResults_def resolveGitHubResults_api_def resolve_values
        resolve_values_api)
  then show ?thesis
    using results_in_order [of "[gone_match, code_match, readme_match]" demo_env
        "[gist_code_match, gist_readme_match]" demo_env_api] a b
      results_in_order [of "[code_match, offline_match]" demo_env
        "[gist_code_match, offline_match]" demo_env_api] c d
    by (simp add: resolve_values resolve_values_api)
qed

text \<open>
  A match whose request is rejected takes the result of the match before it with it.
\<close>

theorem failed_match_affects_others:
  "resolveGitHubResults demo_env [code_match] = Inr [code_result]
   \<and> resolveMatch demo_env offline_match = Inl NetworkError
   \<and> resolveGitHubResults demo_env [code_match, offline_match] = Inl NetworkError"
  by (simp add: resolveGitHubResults_def resolve_values)

section \<open>C10: the two forms of a result\<close>

text \<open>
  C10. Every result emitted by \<open>resolveGitHubResults\<close> has no file or exactly one. With
  one file, the bytes of the attachment are the sliced lines, not truncated, joined
  with newlines. With no file, the content ends with a fenced code block, and the block
  holds the placeholder when no line is left after truncation. In both versions.
\<close>

theorem result_shape:
  "(resolveGitHubResults w ms = Inr rs \<longrightarrow>
      (\<forall>r\<in>set rs. \<exists>m\<in>set ms. \<exists>f. fetchMatch w m = Inr (Some f)
         \<and> ((files r = []
               \<and> content r = inlineHeader (hs w) f @ nl @ lit ''```'' @ f_lang f @ nl
                     @ inlineBody (hs w) f @ nl @ lit ''```'')
            \<or> (\<exists>a. files r = [a]
                  \<and> attachment a = Buffer_from (js_join nl (linesRequested f))))))
   \<and> (resolveGitHubResults_api w' ms' = Inr rs' \<longrightarrow>
      (\<forall>r\<in>set rs'. \<exists>m\<in>set ms'. \<exists>f. fetchMatch_api w' m = Inr (Some f)
         \<and> ((files r = []
               \<and> content r = inlineHeader (hs_api w') f @ nl @ lit ''```'' @ f_lang f @ nl
                     @ inlineBody (hs_api w') f @ nl @ lit ''```'')
            \<or> (\<exists>a. files r = [a]
                  \<and> attachment a = Buffer_from (js_join nl (linesRequested f))))))
   \<and> (safeLinesRequested h f = [] \<longrightarrow> inlineBody h f = lit ''Couldn't find any lines'')"
proof (intro conjI impI ballI)
  fix r
  assume "resolveGitHubResults w ms = Inr rs" "r \<in> set rs"
  then obtain m f where "m \<in> set ms" "fetchMatch w m = Inr (Some f)"
    "r = emitResult (hs w) (type m) f"
    using result_origin by blast
  then show "\<exists>m\<in>set ms. \<exists>f. fetchMatch w m = Inr (Some f)
         \<and> ((files r = []
               \<and> content r = inlineHeader (hs w) f @ nl @ lit ''```'' @ f_lang f @ nl
                     @ inlineBody (hs w) f @ nl @ lit ''```'')
            \<or> (\<exists>a. files r = [a]
                  \<and> attachment a = Buffer_from (js_join nl (linesRequested f))))"
    using emitResult_shape [of "hs w" "type m" f] by blast
next
  fix r
  assume "resolveGitHubResults_api w' ms' = Inr rs'" "r \<in> set rs'"
  then obtain m f where "m \<in> set ms'" "fetchMatch_api w' m = Inr (Some f)"
    "r = emitResult (hs_api w') (type m) f"
    using result_origin_api by blast
  then show "\<exists>m\<in>set ms'. \<exists>f. fetchMatch_api w' m = Inr (Some f)
         \<and> ((files r = []
               \<and> content r = inlineHeader (hs_api w') f @ nl @ lit ''```'' @ f_lang f @ nl
                     @ inlineBody (hs_api w') f @ nl @ lit ''```'')
            \<or> (\<exists>a. files r = [a]
                  \<and> attachment a = Buffer_from (js_join nl (linesRequested f))))"
    using emitResult_shape [of "hs_api w'" "type m" f] by blast
next
  assume "safeLinesRequested h f = []"
  then show "inlineBody h f = lit ''Couldn't find any lines''"
    by (rule inlineBody_placeholder)
qed

theorem result_shape_witness:
  "resolveGitHubResults demo_env [gone_match, code_match, readme_match]
     = Inr [code_result, readme_result]
   \<and> resolveGitHubResults_api demo_env_api [gist_code_match, gist_readme_match]
     = Inr [gist_code_result, gist_readme_result]
   \<and> files code_result = []
   \<and> files readme_result
     = [\<lparr>attachment = Buffer_from (js_join nl (linesRequested readme_fetched)),
         name = lit ''/u/docs/blob/main/README.md''\<rparr>]
   \<and> safeLinesRequested spec_helpers zero_fetched = []
   \<and> inlineBody spec_helpers zero_fetched = lit ''Couldn't find any lines''"
proof -
  have a: "resolveGitHubResults demo_env [gone_match, code_match, readme_match]
     = Inr [code_result, readme_result]"
    by (simp add: resolveGitHubResults_def resolve_values)
  have b: "resolveGitHubResults_api demo_env_api [gist_code_match, gist_readme_match]
     = Inr [gist_code_result, gist_readme_result]"
    by (simp add: resolveGitHubResults_api_def resolve_values_api)
  have c: "files readme_result
     = [\<lparr>attachment = Buffer_from (js_join nl (linesRequested readme_fetched)),
         name = lit ''/u/docs/blob/main/README.md''\<rparr>]"
    using result_lengths(5) by (simp add: readme_result_def)
  show ?thesis
    using result_shape [of demo_env "[gone_match, code_match, readme_match]"
        "[code_result, readme_result]" demo_env_api "[gist_code_match, gist_readme_match]"
        "[gist_code_result, gist_readme_result]" spec_helpers zero_fetched] a b c zero_kept(2)
    by (simp add: code_result_def)
qed

end
